theory Spec2Isabelle
  imports Complex_Main "HOL-Library.Multiset"
begin

section \<open>Data model\<close>

text \<open>
  The library computes with C++ \<^verbatim>\<open>double\<close> and \<^verbatim>\<open>std::complex<double>\<close>.
  They are read here as \<^typ>\<open>real\<close> and \<^typ>\<open>complex\<close>: the statements below are about
  the exact arithmetic the code writes down, not about IEEE rounding, with one exception:
  the positions that \<^verbatim>\<open>compute_power_spectrum_interlacing\<close> shifts and shifts back are
  also modelled in double arithmetic, since there the rounding decides what the caller is
  left with. Where the code divides by a quantity that can be zero the quotient is
  modelled as an optional value, since HOL's total division would hide it.
\<close>

datatype error =
  EUnknownKernel | EUnsupportedDim | EBadBinning | EBadGrid | EBadLineOfSight | ENotANumber

text \<open>
  Modelled from the spec: the class \<^verbatim>\<open>FFTWGrid<N>\<close>, whose header is not in the sources
  (the ``slab-decomposed Fourier grid'' with its ``Fourier view: complex array'' of the
  owned cells). Only what the functions of \<^verbatim>\<open>ComputePowerSpectrum.h\<close> and of the
  smoothing header read from it is kept. The template parameter \<^verbatim>\<open>N\<close> is the field
  \<open>ndim\<close>; \<open>cdelta\<close> is the array \<^verbatim>\<open>get_fourier_grid()\<close> addressed by local Fourier
  index; \<open>wavevector\<close> stands for the method \<^verbatim>\<open>get_fourier_wavevector_from_index\<close>, taken
  as a parameter.
\<close>

record FFTWGrid =
  nmesh :: int
  local_nx :: nat
  ndim :: nat
  cdelta :: "nat \<Rightarrow> complex"
  wavevector :: "nat \<Rightarrow> real list"

text \<open>
  Modelled from the spec: \<^verbatim>\<open>get_fourier_wavevector_and_norm_by_index\<close> of \<^verbatim>\<open>FFTWGrid\<close>,
  which is not in the sources (``\<^verbatim>\<open>get_fourier_wavevector_and_norm(idx)\<close>''): the norm
  \<open>|k|\<close> is the Euclidean norm of the wavevector.
\<close>

definition kmag_of :: "FFTWGrid \<Rightarrow> nat \<Rightarrow> real" where
  "kmag_of g ind = sqrt (sum_list (map (\<lambda>x. x * x) (wavevector g ind)))"

text \<open>
  The owned Fourier cells. \<^verbatim>\<open>bin_up_power_spectrum\<close> and the multipole routine count
  them as \<^verbatim>\<open>Local_nx * power(Nmesh, N-2) * (Nmesh/2+1)\<close>, for grids of dimension
  \<open>N \<ge> 2\<close>; \<^verbatim>\<open>get_fourier_range()\<close> (not in the sources, the spec's ``iteration range
  over Fourier cells (owned)'') walks the same indices.
\<close>

definition NmeshTotLocal :: "FFTWGrid \<Rightarrow> nat" where
  "NmeshTotLocal g = local_nx g * nat (nmesh g) ^ (ndim g - 2) * nat (nmesh g div 2 + 1)"

definition fourier_range :: "FFTWGrid \<Rightarrow> nat list" where
  "fourier_range g = [0..<NmeshTotLocal g]"

text \<open>
  Modelled from the spec: the addressing of the Fourier view of \<^verbatim>\<open>FFTWGrid\<close>, which is
  not in the sources (``complex array of shape \<open>local_nx \<times> N\<^sup>d\<^sup>-\<^sup>2 \<times> (N/2 + 1)\<close>'',
  row-major, the owned planes starting at \<open>local_x_start\<close>).
\<close>

definition spec_fourier_coord :: "nat \<Rightarrow> int \<Rightarrow> nat \<Rightarrow> nat \<Rightarrow> int list" where
  "spec_fourier_coord N Nmesh local_x_start ind =
     (let last = int ind mod (Nmesh div 2 + 1);
          q = int ind div (Nmesh div 2 + 1);
          middle = map (\<lambda>j. (q div Nmesh ^ (N - 2 - j)) mod Nmesh) [1..<N - 1];
          first = q div Nmesh ^ (N - 2) + int local_x_start
      in first # middle @ [last])"

text \<open>
  Modelled from the spec: \<^verbatim>\<open>get_fourier_wavevector_from_index\<close> of \<^verbatim>\<open>FFTWGrid\<close>, which
  is not in the sources (``for index \<open>j\<close> along a non-last axis, \<open>k\<^sub>j = 2\<pi> j'\<close> where
  \<open>j' = j\<close> if \<open>j \<le> N/2\<close> else \<open>j - N\<close>; along the last (real-packed) axis,
  \<open>k\<^sub>j = 2\<pi> j\<close>'').
\<close>

definition spec_wavevector :: "nat \<Rightarrow> int \<Rightarrow> nat \<Rightarrow> nat \<Rightarrow> real list" where
  "spec_wavevector N Nmesh local_x_start ind =
     (let c = spec_fourier_coord N Nmesh local_x_start ind in
      map (\<lambda>j. 2 * pi * real_of_int
                 (if j = N - 1 then c ! j
                  else if c ! j \<le> Nmesh div 2 then c ! j else c ! j - Nmesh))
          [0..<N])"

section \<open>Binning accumulators\<close>

text \<open>
  Modelled from the spec: the class \<^verbatim>\<open>PowerSpectrumBinning<N>\<close>, whose header is not in
  the sources (``fixed number of bins over \<open>[kmin, kmax]\<close>, linear or logarithmic;
  parallel arrays \<open>kbin\<close>, \<open>pofk\<close>, \<open>count\<close>''). The fields are those the estimators touch;
  \<open>nbin\<close> is the member \<^verbatim>\<open>n\<close>. How a wavenumber is mapped to a bin (linear or
  logarithmic) is the parameter \<open>bin_index\<close>; \<open>kcentre\<close> holds the bin midpoints.
\<close>

record PowerSpectrumBinning =
  nbin :: nat
  kmin :: real
  kmax :: real
  bin_index :: "real \<Rightarrow> int"
  kcentre :: "real list"
  kbin :: "real list"
  pofk :: "real list"
  count :: "real list"

text \<open>
  Modelled from the spec: \<^verbatim>\<open>reset()\<close> of the binning class, which is not in the sources
  (``\<^verbatim>\<open>reset()\<close> zeroes all three'' of the parallel arrays of \<open>n\<close> bins).
\<close>

definition reset :: "PowerSpectrumBinning \<Rightarrow> PowerSpectrumBinning" where
  "reset b = b\<lparr>kbin := replicate (nbin b) 0, pofk := replicate (nbin b) 0,
               count := replicate (nbin b) 0\<rparr>"

text \<open>
  Modelled from the spec: \<^verbatim>\<open>add_to_bin(k, value, weight)\<close> of the binning class, which is
  not in the sources (``locates the bin for \<open>k\<close>; if in range, accumulates weighted value,
  weighted \<open>k\<close>, and weight'').
\<close>

definition add_to_bin ::
    "real \<Rightarrow> real \<Rightarrow> real \<Rightarrow> PowerSpectrumBinning \<Rightarrow> PowerSpectrumBinning" where
  "add_to_bin kvalue pw weight b =
     (let index = bin_index b kvalue in
      if 0 \<le> index \<and> index < int (nbin b) then
        b\<lparr>kbin := (kbin b)[nat index := kbin b ! nat index + kvalue * weight],
          pofk := (pofk b)[nat index := pofk b ! nat index + pw * weight],
          count := (count b)[nat index := count b ! nat index + weight]\<rparr>
      else b)"

text \<open>
  Modelled from the spec: \<^verbatim>\<open>normalize()\<close> of the binning class, which is not in the
  sources (``performs an all-reduce sum over workers on the three arrays, then divides
  \<open>pofk\<close> and \<open>kbin\<close> by \<open>count\<close> where \<open>count > 0\<close> (else leaves them at bin
  midpoint)''). One worker is modelled, for which the all-reduce changes nothing.
\<close>

definition normalize :: "PowerSpectrumBinning \<Rightarrow> PowerSpectrumBinning" where
  "normalize b =
     b\<lparr>pofk := map (\<lambda>i. if count b ! i > 0 then pofk b ! i / count b ! i else pofk b ! i)
                  [0..<nbin b],
       kbin := map (\<lambda>i. if count b ! i > 0 then kbin b ! i / count b ! i else kcentre b ! i)
                  [0..<nbin b]\<rparr>"

section \<open>Binning the power spectrum of a Fourier grid\<close>

text \<open>\<^verbatim>\<open>int last_coord = ind % (Nmesh / 2 + 1)\<close>, with the integer division of the code.\<close>

definition last_coord :: "FFTWGrid \<Rightarrow> nat \<Rightarrow> int" where
  "last_coord g ind = int ind mod (nmesh g div 2 + 1)"

text \<open>\<^verbatim>\<open>double weight = last_coord > 0 && last_coord < Nmesh / 2 ? 2.0 : 1.0\<close>\<close>

definition mode_weight :: "FFTWGrid \<Rightarrow> nat \<Rightarrow> real" where
  "mode_weight g ind =
     (if last_coord g ind > 0 \<and> last_coord g ind < nmesh g div 2 then 2 else 1)"

text \<open>\<^verbatim>\<open>std::norm(cdelta[ind])\<close>, the squared modulus.\<close>

definition delta_norm :: "FFTWGrid \<Rightarrow> nat \<Rightarrow> real" where
  "delta_norm g ind = (cmod (cdelta g ind))\<^sup>2"

definition bin_up_cell :: "FFTWGrid \<Rightarrow> PowerSpectrumBinning \<Rightarrow> nat \<Rightarrow> PowerSpectrumBinning" where
  "bin_up_cell g b ind = add_to_bin (kmag_of g ind) (delta_norm g ind) (mode_weight g ind) b"

text \<open>The loop of \<^verbatim>\<open>bin_up_power_spectrum\<close> over the owned cells, after the reset.\<close>

definition bin_up_accumulate :: "FFTWGrid \<Rightarrow> PowerSpectrumBinning \<Rightarrow> PowerSpectrumBinning" where
  "bin_up_accumulate g b = fold (\<lambda>ind acc. bin_up_cell g acc ind) [0..<NmeshTotLocal g] (reset b)"

definition bin_up_power_spectrum :: "FFTWGrid \<Rightarrow> PowerSpectrumBinning \<Rightarrow> error + PowerSpectrumBinning" where
  "bin_up_power_spectrum g b =
     (if \<not> nmesh g > 0 then Inl EBadGrid
      else if \<not> (nbin b > 0 \<and> kmax b > kmin b \<and> kmin b \<ge> 0) then Inl EBadBinning
      else Inr (normalize (bin_up_accumulate g b)))"

section \<open>Power-spectrum multipoles of a Fourier grid\<close>

text \<open>
  The norm of the line-of-sight vector and, per cell, the cosine
  \<^verbatim>\<open>mu = (kvec . los) / (kmag * rnorm)\<close>. The code divides without a test; a zero
  divisor gives a non-finite \<^verbatim>\<open>double\<close>, which is \<open>None\<close> here.
\<close>

definition rnorm_of :: "nat \<Rightarrow> real list \<Rightarrow> real" where
  "rnorm_of N line_of_sight_direction =
     sqrt (sum_list (map (\<lambda>idim. line_of_sight_direction ! idim * line_of_sight_direction ! idim)
                      [0..<N]))"

definition mu_dot :: "FFTWGrid \<Rightarrow> real list \<Rightarrow> nat \<Rightarrow> real" where
  "mu_dot g line_of_sight_direction ind =
     sum_list (map (\<lambda>idim. wavevector g ind ! idim * line_of_sight_direction ! idim)
                [0..<ndim g])"

definition mu_divisor :: "FFTWGrid \<Rightarrow> real list \<Rightarrow> nat \<Rightarrow> real" where
  "mu_divisor g line_of_sight_direction ind =
     kmag_of g ind * rnorm_of (ndim g) line_of_sight_direction"

definition mu_of :: "FFTWGrid \<Rightarrow> real list \<Rightarrow> nat \<Rightarrow> real option" where
  "mu_of g line_of_sight_direction ind =
     (if mu_divisor g line_of_sight_direction ind = 0 then None
      else Some (mu_dot g line_of_sight_direction ind / mu_divisor g line_of_sight_direction ind))"

definition mul_opt :: "real option \<Rightarrow> real option \<Rightarrow> real option" where
  "mul_opt a b = (case a of None \<Rightarrow> None | Some x \<Rightarrow> (case b of None \<Rightarrow> None | Some y \<Rightarrow> Some (x * y)))"

text \<open>
  \<^verbatim>\<open>add_to_bin\<close> handed a value that may be non-finite. The C++ adds the NaN to the bin
  when the wavenumber is in range and goes on; \<^typ>\<open>real\<close> has no NaN, so the model
  reports \<open>ENotANumber\<close> at that point. Out of range, the value is dropped as any other.
\<close>

definition add_to_bin_nan ::
    "real \<Rightarrow> real option \<Rightarrow> real \<Rightarrow> PowerSpectrumBinning \<Rightarrow> error + PowerSpectrumBinning" where
  "add_to_bin_nan kvalue pw weight b =
     (case pw of
        Some p \<Rightarrow> Inr (add_to_bin kvalue p weight b)
      | None \<Rightarrow> if 0 \<le> bin_index b kvalue \<and> bin_index b kvalue < int (nbin b)
                then Inl ENotANumber else Inr b)"

text \<open>
  The inner loop over \<open>ell\<close>: \<^verbatim>\<open>Pell[ell].add_to_bin(kmag, power * mutoell, weight)\<close>
  followed by \<^verbatim>\<open>mutoell *= mu\<close>, with \<open>mutoell\<close> starting at 1.
\<close>

fun add_moments ::
    "real \<Rightarrow> real \<Rightarrow> real \<Rightarrow> real option \<Rightarrow> real option \<Rightarrow> PowerSpectrumBinning list
     \<Rightarrow> error + PowerSpectrumBinning list" where
  "add_moments kmag pw weight mu mutoell [] = Inr []"
| "add_moments kmag pw weight mu mutoell (b # bs) =
     (case add_to_bin_nan kmag (mul_opt (Some pw) mutoell) weight b of
        Inl e \<Rightarrow> Inl e
      | Inr b' \<Rightarrow>
         (case add_moments kmag pw weight mu (mul_opt mutoell mu) bs of
            Inl e \<Rightarrow> Inl e
          | Inr bs' \<Rightarrow> Inr (b' # bs')))"

definition multipole_cell ::
    "FFTWGrid \<Rightarrow> real list \<Rightarrow> nat \<Rightarrow> PowerSpectrumBinning list \<Rightarrow> error + PowerSpectrumBinning list" where
  "multipole_cell g los ind Pell =
     add_moments (kmag_of g ind) (delta_norm g ind) (mode_weight g ind) (mu_of g los ind)
       (Some 1) Pell"

fun multipoles_accumulate ::
    "FFTWGrid \<Rightarrow> real list \<Rightarrow> nat list \<Rightarrow> PowerSpectrumBinning list
     \<Rightarrow> error + PowerSpectrumBinning list" where
  "multipoles_accumulate g los [] Pell = Inr Pell"
| "multipoles_accumulate g los (ind # inds) Pell =
     (case multipole_cell g los ind Pell of
        Inl e \<Rightarrow> Inl e
      | Inr Pell' \<Rightarrow> multipoles_accumulate g los inds Pell')"

text \<open>
  The first half of the grid-based \<^verbatim>\<open>compute_power_spectrum_multipoles\<close>: the four
  \<^verbatim>\<open>assert_mpi\<close> checks, the reset, the loop over the owned cells and the normalisation.
  It leaves the moments \<open><|delta|\<^sup>2 mu\<^sup>m>\<close> in \<open>Pell[m]\<close>.
\<close>

definition multipole_moments ::
    "FFTWGrid \<Rightarrow> PowerSpectrumBinning list \<Rightarrow> real list \<Rightarrow> error + PowerSpectrumBinning list" where
  "multipole_moments g Pell line_of_sight_direction =
     (if length line_of_sight_direction \<noteq> ndim g then Inl EBadLineOfSight
      else if \<not> length Pell > 0 then Inl EBadBinning
      else if \<not> nmesh g > 0 then Inl EBadGrid
      else if \<not> rnorm_of (ndim g) line_of_sight_direction > 0 then Inl EBadLineOfSight
      else (case multipoles_accumulate g line_of_sight_direction [0..<NmeshTotLocal g]
                   (map reset Pell) of
              Inl e \<Rightarrow> Inl e
            | Inr acc \<Rightarrow> Inr (map normalize acc)))"

text \<open>
  The lambda \<^verbatim>\<open>binomial\<close>: its arguments are \<^verbatim>\<open>double\<close>, the loop counter \<open>i\<close> an
  \<^verbatim>\<open>int\<close> running while \<^verbatim>\<open>i < k\<close>.
\<close>

definition binomial_lam :: "real \<Rightarrow> real \<Rightarrow> real" where
  "binomial_lam n k = fold (\<lambda>i res. res * ((n - real i) / (k - real i))) [0..<nat \<lceil>k\<rceil>] 1"

definition summand_legendre_polynomial :: "nat \<Rightarrow> nat \<Rightarrow> real" where
  "summand_legendre_polynomial k ell =
     (let sign = (if k mod 2 = 0 then 1 else - 1) in
      sign * binomial_lam (real ell) (real k) *
        binomial_lam (real_of_int (2 * int ell - 2 * int k)) (real ell) / 2 ^ ell)"

text \<open>The vector \<^verbatim>\<open>sum\<close> built for one \<open>ell\<close>, with \<open>k\<close> running from 0 to \<^verbatim>\<open>ell / 2\<close>.\<close>

definition legendre_sum :: "PowerSpectrumBinning list \<Rightarrow> nat \<Rightarrow> real list" where
  "legendre_sum Pell ell =
     fold (\<lambda>k sum. map (\<lambda>i. sum ! i + pofk (Pell ! (ell - 2 * k)) ! i *
                                     summand_legendre_polynomial k ell)
                       [0..<length sum])
          [0..<ell div 2 + 1]
          (replicate (length (pofk (Pell ! 0))) 0)"

text \<open>All sums are built from the moments first (\<^verbatim>\<open>temp\<close>), then copied over.\<close>

definition legendre_project :: "PowerSpectrumBinning list \<Rightarrow> PowerSpectrumBinning list" where
  "legendre_project Pell =
     map (\<lambda>ell. (Pell ! ell)\<lparr>pofk := legendre_sum Pell ell\<rparr>) [0..<length Pell]"

definition compute_power_spectrum_multipoles ::
    "FFTWGrid \<Rightarrow> PowerSpectrumBinning list \<Rightarrow> real list \<Rightarrow> error + PowerSpectrumBinning list" where
  "compute_power_spectrum_multipoles g Pell line_of_sight_direction =
     (case multipole_moments g Pell line_of_sight_direction of
        Inl e \<Rightarrow> Inl e
      | Inr moments \<Rightarrow> Inr (legendre_project moments))"

section \<open>Smoothing filters\<close>

definition filter_sharpk :: "real \<Rightarrow> real \<Rightarrow> real" where
  "filter_sharpk smoothing_scale k =
     (let kR = k * smoothing_scale in if kR < 1 then 1 else 0)"

definition filter_gaussian :: "real \<Rightarrow> real \<Rightarrow> real" where
  "filter_gaussian smoothing_scale k =
     (let kR = k * smoothing_scale in exp (- (1 / 2) * kR * kR))"

definition filter_tophat_2D :: "real \<Rightarrow> real \<Rightarrow> real" where
  "filter_tophat_2D smoothing_scale k =
     (let kR = k * smoothing_scale in
      if kR < 1 / 100000 then 1 else 2 / (kR * kR) * (1 - cos kR))"

definition filter_tophat_3D :: "real \<Rightarrow> real \<Rightarrow> real" where
  "filter_tophat_3D smoothing_scale k =
     (let kR = k * smoothing_scale in
      if kR < 1 / 100000 then 1 else 3 * (sin kR - kR * cos kR) / (kR * kR * kR))"

text \<open>
  The selection of the filter. The \<^verbatim>\<open>throw std::runtime_error("Unknown filter ...")\<close>
  is the error \<open>EUnknownKernel\<close>; the failed \<^verbatim>\<open>assert_mpi(N == 2 or N == 3, ...)\<close> is
  \<open>EUnsupportedDim\<close> (\<^verbatim>\<open>assert_mpi\<close> is declared in \<^verbatim>\<open>Global.h\<close>, outside the sources;
  it stops the call when its condition is false).
\<close>

definition select_filter :: "nat \<Rightarrow> real \<Rightarrow> string \<Rightarrow> error + (real \<Rightarrow> real)" where
  "select_filter N smoothing_scale smoothing_method =
     (if smoothing_method = ''sharpk'' then Inr (filter_sharpk smoothing_scale)
      else if smoothing_method = ''gaussian'' then Inr (filter_gaussian smoothing_scale)
      else if smoothing_method = ''tophat'' then
        (if N = 2 \<or> N = 3 then
           Inr (if N = 2 then filter_tophat_2D smoothing_scale
                else filter_tophat_3D smoothing_scale)
         else Inl EUnsupportedDim)
      else Inl EUnknownKernel)"

text \<open>One pass of the smoothing loop: the amplitude at \<open>index\<close> times the filter at \<open>|k|\<close>.\<close>

definition smooth_cell :: "(real \<Rightarrow> real) \<Rightarrow> FFTWGrid \<Rightarrow> nat \<Rightarrow> FFTWGrid" where
  "smooth_cell flt g index =
     g\<lparr>cdelta := (cdelta g)(index := cdelta g index * of_real (flt (kmag_of g index)))\<rparr>"

text \<open>
  \<^verbatim>\<open>smoothing_filter_fourier_space\<close> mutates the grid it is handed. The model returns
  the grid the caller is left with together with the error, if any.
\<close>

definition smoothing_filter_fourier_space ::
    "FFTWGrid \<Rightarrow> real \<Rightarrow> string \<Rightarrow> error option \<times> FFTWGrid" where
  "smoothing_filter_fourier_space fourier_grid smoothing_scale smoothing_method =
     (case select_filter (ndim fourier_grid) smoothing_scale smoothing_method of
        Inl e \<Rightarrow> (Some e, fourier_grid)
      | Inr flt \<Rightarrow> (None, fold (\<lambda>index g. smooth_cell flt g index)
                            (fourier_range fourier_grid) fourier_grid))"

section \<open>Particles and the operations taken from other headers\<close>

text \<open>A particle as the estimators use it: \<^verbatim>\<open>get_pos()\<close> and \<^verbatim>\<open>get_vel()\<close>.\<close>

record particle =
  pos :: "real list"
  vel :: "real list"

text \<open>
  The functions of other headers that the particle estimators call, as parameters:
  the constructor \<^verbatim>\<open>FFTWGrid<N>(Ngrid, nleft, nright)\<close>,
  \<^verbatim>\<open>get_extra_slices_needed_for_density_assignment\<close>, \<^verbatim>\<open>particles_to_grid\<close> (which is
  handed the particles, \<open>NumPartTotal\<close>, the grid and the assignment method),
  \<^verbatim>\<open>fftw_r2c\<close>, \<^verbatim>\<open>deconvolve_window_function_fourier\<close> and
  \<^verbatim>\<open>communicate_particles\<close>. They are taken to return.
\<close>

record externals =
  new_grid :: "int \<Rightarrow> int \<Rightarrow> int \<Rightarrow> FFTWGrid"
  extra_slices :: "string \<Rightarrow> int \<times> int"
  particles_to_grid :: "particle list \<Rightarrow> nat \<Rightarrow> FFTWGrid \<Rightarrow> string \<Rightarrow> FFTWGrid"
  fftw_r2c :: "FFTWGrid \<Rightarrow> FFTWGrid"
  deconvolve_window_function_fourier :: "FFTWGrid \<Rightarrow> string \<Rightarrow> FFTWGrid"
  communicate_particles :: "particle list \<Rightarrow> particle list"

text \<open>The loop \<^verbatim>\<open>pofk.pofk[i] -= 1.0 / double(NumPartTotal)\<close> over \<open>i < pofk.n\<close>.\<close>

definition subtract_shotnoise :: "nat \<Rightarrow> PowerSpectrumBinning \<Rightarrow> PowerSpectrumBinning" where
  "subtract_shotnoise NumPartTotal b =
     b\<lparr>pofk := fold (\<lambda>i p. p[i := p ! i - 1 / real NumPartTotal]) [0..<nbin b] (pofk b)\<rparr>"

section \<open>Interlaced power spectrum\<close>

subsection \<open>The shifted particles and the mean of the two grids\<close>

text \<open>\<^verbatim>\<open>const double shift = 1.0/double(2*Ngrid)\<close>\<close>

definition shift_of :: "int \<Rightarrow> real" where
  "shift_of Ngrid = 1 / real_of_int (2 * Ngrid)"

text \<open>
  The first particle loop: \<^verbatim>\<open>pos[0] += shift\<close>, and for \<open>idim = 1, ..., N-1\<close>
  \<^verbatim>\<open>pos[idim] += shift; if(pos[idim] >= 1.0) pos[idim] -= 1.0\<close>.
\<close>

definition shift_axis :: "real \<Rightarrow> nat \<Rightarrow> real list \<Rightarrow> real list" where
  "shift_axis shift idim x =
     (let y = x[idim := x ! idim + shift] in
      if y ! idim \<ge> 1 then y[idim := y ! idim - 1] else y)"

definition shift_particle :: "nat \<Rightarrow> real \<Rightarrow> particle \<Rightarrow> particle" where
  "shift_particle N shift p =
     p\<lparr>pos := fold (shift_axis shift) [1..<N] ((pos p)[0 := pos p ! 0 + shift])\<rparr>"

text \<open>The mean of the two grids, cell by cell over \<^verbatim>\<open>get_fourier_range()\<close>.\<close>

definition ksum_of :: "FFTWGrid \<Rightarrow> nat \<Rightarrow> real" where
  "ksum_of g complex_index =
     sum_list (map (\<lambda>idim. wavevector g complex_index ! idim) [0..<ndim g])"

definition interlace_cell :: "real \<Rightarrow> FFTWGrid \<Rightarrow> FFTWGrid \<Rightarrow> nat \<Rightarrow> FFTWGrid" where
  "interlace_cell shift density_k2 density_k complex_index =
     (let norm = exp (\<i> * of_real (ksum_of density_k complex_index) * of_real shift) in
      density_k\<lparr>cdelta := (cdelta density_k)
        (complex_index :=
           (cdelta density_k complex_index + norm * cdelta density_k2 complex_index) / 2)\<rparr>)"

definition interlace_mean :: "real \<Rightarrow> FFTWGrid \<Rightarrow> FFTWGrid \<Rightarrow> FFTWGrid" where
  "interlace_mean shift density_k2 density_k =
     fold (\<lambda>complex_index g. interlace_cell shift density_k2 g complex_index)
          (fourier_range density_k) density_k"

text \<open>The value the loop of \<^verbatim>\<open>interlace_mean\<close> writes at one cell.\<close>

definition interlaced_amplitude :: "real \<Rightarrow> FFTWGrid \<Rightarrow> FFTWGrid \<Rightarrow> nat \<Rightarrow> complex" where
  "interlaced_amplitude shift g2 g ind =
     (cdelta g ind + exp (\<i> * of_real (ksum_of g ind) * of_real shift) * cdelta g2 ind) / 2"

subsection \<open>The two particle loops in double arithmetic\<close>

text \<open>
  The arithmetic of a C++ \<^verbatim>\<open>double\<close> (IEEE 754 binary64, round to nearest, ties to
  even), for the one place where rounding decides what the caller is left with: the two
  particle loops of \<^verbatim>\<open>compute_power_spectrum_interlacing\<close>, which add the shift to the
  stored positions and subtract it again. A nonzero real \<open>x\<close> with binary exponent
  \<open>e = \<lfloor>log\<^sub>2 |x|\<rfloor>\<close>, not below the exponent \<open>-1022\<close> of the subnormal numbers, is
  rounded to the nearest multiple of \<open>2\<^sup>e\<^sup>-\<^sup>5\<^sup>2\<close>. Overflow is not modelled: the numbers of
  the two loops stay below 2 for positions in the unit box.
\<close>

definition round_half_even :: "real \<Rightarrow> int" where
  "round_half_even x =
     (let f = \<lfloor>x\<rfloor>; r = x - of_int f in
      if r < 1 / 2 then f else if 1 / 2 < r then f + 1 else if even f then f else f + 1)"

definition double_exponent :: "real \<Rightarrow> int" where
  "double_exponent x = max \<lfloor>log 2 \<bar>x\<bar>\<rfloor> (- 1022)"

definition double_round :: "real \<Rightarrow> real" where
  "double_round x =
     (if x = 0 then 0
      else of_int (round_half_even (x / 2 powi (double_exponent x - 52))) *
             2 powi (double_exponent x - 52))"

text \<open>
  \<^verbatim>\<open>const double shift = 1.0/double(2*Ngrid)\<close>, the quotient rounded; the product
  \<^verbatim>\<open>2*Ngrid\<close> is an \<^verbatim>\<open>int\<close>, exact for \<open>Ngrid < 2\<^sup>3\<^sup>0\<close>.
\<close>

definition shift_double :: "int \<Rightarrow> real" where
  "shift_double Ngrid = double_round (1 / real_of_int (2 * Ngrid))"

text \<open>
  The first particle loop, as in \<open>shift_axis\<close>, and the second:
  \<^verbatim>\<open>pos[0] -= shift\<close>, and for \<open>idim = 1, ..., N-1\<close>
  \<^verbatim>\<open>pos[idim] -= shift; if(pos[idim] < 0.0) pos[idim] += 1.0\<close>. The positions are stored
  as \<^verbatim>\<open>double\<close>: every \<^verbatim>\<open>+=\<close> and \<^verbatim>\<open>-=\<close> stores the rounded sum, and the
  comparisons with 1 and 0 read the stored value.
\<close>

definition shift_axis_double :: "real \<Rightarrow> nat \<Rightarrow> real list \<Rightarrow> real list" where
  "shift_axis_double shift idim x =
     (let y = x[idim := double_round (x ! idim + shift)] in
      if y ! idim \<ge> 1 then y[idim := double_round (y ! idim - 1)] else y)"

definition shift_particle_double :: "nat \<Rightarrow> real \<Rightarrow> particle \<Rightarrow> particle" where
  "shift_particle_double N shift p =
     p\<lparr>pos := fold (shift_axis_double shift) [1..<N]
                  ((pos p)[0 := double_round (pos p ! 0 + shift)])\<rparr>"

definition unshift_axis_double :: "real \<Rightarrow> nat \<Rightarrow> real list \<Rightarrow> real list" where
  "unshift_axis_double shift idim x =
     (let y = x[idim := double_round (x ! idim - shift)] in
      if y ! idim < 0 then y[idim := double_round (y ! idim + 1)] else y)"

definition unshift_particle_double :: "nat \<Rightarrow> real \<Rightarrow> particle \<Rightarrow> particle" where
  "unshift_particle_double N shift p =
     p\<lparr>pos := fold (unshift_axis_double shift) [1..<N]
                  ((pos p)[0 := double_round (pos p ! 0 - shift)])\<rparr>"

text \<open>
  The particles the caller of \<^verbatim>\<open>compute_power_spectrum_interlacing\<close> is left with, in
  double arithmetic: the first loop, then the second, over every particle.
\<close>

definition interlacing_particles_double :: "nat \<Rightarrow> int \<Rightarrow> particle list \<Rightarrow> particle list" where
  "interlacing_particles_double N Ngrid part =
     map (unshift_particle_double N (shift_double Ngrid))
       (map (shift_particle_double N (shift_double Ngrid)) part)"

subsection \<open>The estimator\<close>

text \<open>
  \<^verbatim>\<open>compute_power_spectrum_interlacing<N,T>\<close>. The particle array is mutated in place, so
  the model returns the particles the caller is left with beside the binning: the
  particles after both loops in double arithmetic. The grids are those of exact
  arithmetic, the second one scattered from the particles shifted by \<open>shift_particle\<close>.
  The names of the intermediate values are those of the code.
\<close>

definition interlacing_shifted :: "nat \<Rightarrow> int \<Rightarrow> particle list \<Rightarrow> particle list" where
  "interlacing_shifted N Ngrid part = map (shift_particle N (shift_of Ngrid)) part"

definition interlacing_density_k ::
    "externals \<Rightarrow> int \<Rightarrow> particle list \<Rightarrow> nat \<Rightarrow> string \<Rightarrow> FFTWGrid" where
  "interlacing_density_k ext Ngrid part NumPartTotal density_assignment_method =
     (let nleft = fst (extra_slices ext density_assignment_method);
          nright = snd (extra_slices ext density_assignment_method) + 1
      in fftw_r2c ext (particles_to_grid ext part NumPartTotal (new_grid ext Ngrid nleft nright)
                         density_assignment_method))"

definition compute_power_spectrum_interlacing ::
    "externals \<Rightarrow> nat \<Rightarrow> int \<Rightarrow> particle list \<Rightarrow> nat \<Rightarrow> PowerSpectrumBinning \<Rightarrow> string
     \<Rightarrow> particle list \<times> (error + PowerSpectrumBinning)" where
  "compute_power_spectrum_interlacing ext N Ngrid part NumPartTotal pofk_in
       density_assignment_method =
     (let density_k =
            interlacing_density_k ext Ngrid part NumPartTotal density_assignment_method;
          shifted = interlacing_shifted N Ngrid part;
          density_k2 =
            interlacing_density_k ext Ngrid shifted NumPartTotal density_assignment_method;
          part' = interlacing_particles_double N Ngrid part;
          mean = interlace_mean (shift_of Ngrid) density_k2 density_k;
          deconvolved = deconvolve_window_function_fourier ext mean density_assignment_method
      in (part',
          (case bin_up_power_spectrum deconvolved pofk_in of
             Inl e \<Rightarrow> Inl e
           | Inr b \<Rightarrow> Inr (subtract_shotnoise NumPartTotal b))))"

text \<open>
  The particle has \<open>N\<close> coordinates, all in \<open>[0, 1)\<close>: the particle stream of the spec
  has every position in \<open>[0, 1)\<^sup>d\<close>.
\<close>

definition in_unit_box :: "nat \<Rightarrow> particle \<Rightarrow> bool" where
  "in_unit_box N p =
     (length (pos p) = N \<and> list_all (\<lambda>idim. 0 \<le> pos p ! idim \<and> pos p ! idim < 1) [0..<N])"

section \<open>Multipoles from particles\<close>

text \<open>
  Modelled from the spec: \<^verbatim>\<open>operator+=\<close> of the binning class, which is not in the
  sources. The spec has the particle routine ``return the mean of the \<open>d\<close> results''; the
  code forms it as \<^verbatim>\<open>Pell[ell] += Pell_all[dir][ell]\<close> followed by a division of
  \<open>pofk\<close>, \<open>count\<close> and \<open>kbin\<close> by \<open>N\<close>, so \<^verbatim>\<open>+=\<close> adds these three arrays entry by entry.
\<close>

definition binning_add :: "PowerSpectrumBinning \<Rightarrow> PowerSpectrumBinning \<Rightarrow> PowerSpectrumBinning" where
  "binning_add a b =
     a\<lparr>kbin := map2 (+) (kbin a) (kbin b), pofk := map2 (+) (pofk a) (pofk b),
       count := map2 (+) (count a) (count b)\<rparr>"











definition divide_by_axes :: "nat \<Rightarrow> PowerSpectrumBinning \<Rightarrow> PowerSpectrumBinning" where
  "divide_by_axes N b =
     fold (\<lambda>i b. b\<lparr>pofk := (pofk b)[i := pofk b ! i / real N],
                     count := (count b)[i := count b ! i / real N],
                     kbin := (kbin b)[i := kbin b ! i / real N]\<rparr>)
          [0..<nbin b] b"




text \<open>
  Two binnings of the same shape (the estimators never resize an array), and a list of
  binnings with the shape \<open>Pell\<close> declares.
\<close>

definition like_binning :: "PowerSpectrumBinning \<Rightarrow> PowerSpectrumBinning \<Rightarrow> bool" where
  "like_binning a b =
     (nbin b = nbin a \<and> length (pofk b) = length (pofk a) \<and>
      length (count b) = length (count a) \<and> length (kbin b) = length (kbin a))"


section \<open>Power spectrum by direct summation\<close>

text \<open>\<^verbatim>\<open>kx += kvec[idim] * x[idim]\<close> over the \<open>N\<close> coordinates of one particle.\<close>

definition kx_of :: "nat \<Rightarrow> real list \<Rightarrow> particle \<Rightarrow> real" where
  "kx_of N kvec p = sum_list (map (\<lambda>idim. kvec ! idim * pos p ! idim) [0..<N])"

text \<open>
  The particle loop: \<^verbatim>\<open>val = std::exp(-kx * I)\<close>, real and imaginary parts summed
  separately, then \<^verbatim>\<open>sum = {real, imag}\<close>.
\<close>

definition direct_sum :: "nat \<Rightarrow> real list \<Rightarrow> particle list \<Rightarrow> complex" where
  "direct_sum N kvec part =
     Complex (\<Sum>p\<leftarrow>part. Re (exp (of_real (- kx_of N kvec p) * \<i>)))
             (\<Sum>p\<leftarrow>part. Im (exp (of_real (- kx_of N kvec p) * \<i>)))"

text \<open>
  One pass of the loop over \<^verbatim>\<open>get_fourier_range()\<close>:
  \<^verbatim>\<open>if(ThisTask == 0 and complex_index == 0) sum -= 1.0; f[complex_index] = sum * norm;\<close>
  with \<^verbatim>\<open>norm = 1.0/double(NumPart)\<close>. \<open>NumPart\<close> is the length of the particle array.
\<close>

definition direct_summation_cell :: "nat \<Rightarrow> particle list \<Rightarrow> FFTWGrid \<Rightarrow> nat \<Rightarrow> FFTWGrid" where
  "direct_summation_cell ThisTask part density_k complex_index =
     (let norm = 1 / real (length part);
          kvec = wavevector density_k complex_index;
          sum = direct_sum (ndim density_k) kvec part;
          sum' = (if ThisTask = 0 \<and> complex_index = 0 then sum - 1 else sum)
      in density_k\<lparr>cdelta := (cdelta density_k)(complex_index := sum' * of_real norm)\<rparr>)"

definition direct_summation_grid :: "nat \<Rightarrow> externals \<Rightarrow> int \<Rightarrow> particle list \<Rightarrow> FFTWGrid" where
  "direct_summation_grid ThisTask ext Ngrid part =
     fold (\<lambda>complex_index g. direct_summation_cell ThisTask part g complex_index)
          (fourier_range (new_grid ext Ngrid 1 1)) (new_grid ext Ngrid 1 1)"

definition compute_power_spectrum_direct_summation ::
    "nat \<Rightarrow> externals \<Rightarrow> int \<Rightarrow> particle list \<Rightarrow> PowerSpectrumBinning
     \<Rightarrow> error + PowerSpectrumBinning" where
  "compute_power_spectrum_direct_summation ThisTask ext Ngrid part pofk_in =
     (if \<not> Ngrid > 0 then Inl EBadGrid
      else (case bin_up_power_spectrum (direct_summation_grid ThisTask ext Ngrid part) pofk_in of
              Inl e \<Rightarrow> Inl e
            | Inr b \<Rightarrow> Inr (subtract_shotnoise (length part) b)))"

section \<open>Bispectrum and polyspectrum\<close>

text \<open>
  Modelled from the spec: the classes \<^verbatim>\<open>BispectrumBinning<N>\<close> and
  \<^verbatim>\<open>PolyspectrumBinning<N,ORDER>\<close>, whose headers are not in the sources (``a flat tensor
  \<open>P123\<close> of length \<open>n\<^sub>b\<^sup>n\<close> and a count tensor \<open>N123\<close>, both indexed as mixed-radix
  \<open>ik\<^sub>1 n\<^sub>b\<^sup>n\<^sup>-\<^sup>1 + ... + ik\<^sub>n\<close>''): the number of bins \<^verbatim>\<open>n\<close>, the bin centres \<^verbatim>\<open>k\<close>
  handed in, and the four arrays the estimators write. For the bispectrum \<open>P123\<close> is
  the member \<^verbatim>\<open>B123\<close>.
\<close>

record PolyspectrumBinning =
  poly_n :: nat
  poly_k :: "real list"
  P123 :: "real list"
  N123 :: "real list"
  poly_kbin :: "real list"
  poly_pofk :: "real list"

text \<open>The bin edges \<^verbatim>\<open>klow\<close>, \<^verbatim>\<open>khigh\<close>, the centres \<^verbatim>\<open>k_bin\<close> and \<^verbatim>\<open>deltak\<close>.\<close>

definition khigh_of :: "nat \<Rightarrow> real list \<Rightarrow> nat \<Rightarrow> real" where
  "khigh_of nbins k i =
     (if i = 0 then k ! 0 + (k ! 1 - k ! 0) / 2
      else if i < nbins - 1 then k ! i + (k ! (i + 1) - k ! i) / 2
      else k ! (nbins - 1))"

definition klow_of :: "nat \<Rightarrow> real list \<Rightarrow> nat \<Rightarrow> real" where
  "klow_of nbins k i = (if i = 0 then k ! 0 else khigh_of nbins k (i - 1))"

definition k_bin_of :: "nat \<Rightarrow> real list \<Rightarrow> nat \<Rightarrow> real" where
  "k_bin_of nbins k i = (khigh_of nbins k i + klow_of nbins k i) / 2"

definition deltak_of :: "real list \<Rightarrow> real" where
  "deltak_of k = k ! 1 - k ! 0"

text \<open>
  Modelled from the spec: \<^verbatim>\<open>get_fourier_wavevector_and_norm2_by_index\<close> of \<^verbatim>\<open>FFTWGrid\<close>,
  which is not in the sources; the squared norm of the wavevector.
\<close>

definition kmag2_of :: "FFTWGrid \<Rightarrow> nat \<Rightarrow> real" where
  "kmag2_of g ind = sum_list (map (\<lambda>x. x * x) (wavevector g ind))"

text \<open>
  The loop over the Fourier cells for one shell: it accumulates \<^verbatim>\<open>kmean\<close>,
  \<^verbatim>\<open>pofk_bin[i]\<close> and \<^verbatim>\<open>nk\<close> over the cells with \<open>kmag2_min \<le> kmag2 < kmag2_max\<close>.
\<close>

definition shell_sums :: "FFTWGrid \<Rightarrow> real \<Rightarrow> real \<Rightarrow> real \<times> real \<times> real" where
  "shell_sums g kmag_min kmag_max =
     fold (\<lambda>fourier_index (kmean, p, nk).
             if kmag2_of g fourier_index \<ge> kmag_max * kmag_max \<or>
                kmag2_of g fourier_index < kmag_min * kmag_min
             then (kmean, p, nk)
             else (kmean + sqrt (kmag2_of g fourier_index), p + delta_norm g fourier_index, nk + 1))
          (fourier_range g) (0, 0, 0)"

definition pofk_bin_of :: "FFTWGrid \<Rightarrow> nat \<Rightarrow> real list \<Rightarrow> nat \<Rightarrow> real" where
  "pofk_bin_of g nbins k i =
     (case shell_sums g (klow_of nbins k i) (khigh_of nbins k i) of
        (kmean, p, nk) \<Rightarrow> if nk = 0 then 0 else p / nk)"

text \<open>
  The shell fields in real space, \<^verbatim>\<open>F_k[i]\<close> and \<^verbatim>\<open>N_k[i]\<close> after \<^verbatim>\<open>fftw_c2r\<close>, are
  parameters: one list of real cells per bin. The sum over \<^verbatim>\<open>get_real_range()\<close> of the
  product over the tuple:
\<close>

definition tuple_sum :: "real list list \<Rightarrow> nat list \<Rightarrow> real" where
  "tuple_sum shells ik =
     (\<Sum>real_index\<leftarrow>[0..<length (shells ! 0)].
        fold (\<lambda>ii product. product * shells ! (ik ! ii) ! real_index) [0..<length ik] 1)"

text \<open>\<^verbatim>\<open>std::pow(1.0 / double(Nmesh) / (2.0 * M_PI), N)\<close>\<close>

definition norm_factor :: "int \<Rightarrow> nat \<Rightarrow> real" where
  "norm_factor Nmesh N = (1 / real_of_int Nmesh / (2 * pi)) ^ N"

subsection \<open>\<^verbatim>\<open>compute_polyspectrum\<close>\<close>

text \<open>
  The integration loop decodes \<open>i\<close> with \<open>ik[order-1]\<close> the least significant digit:
  \<^verbatim>\<open>for(int ii = order-1, n = 1; ii >= 0; ii--, n *= nbins) ik[ii] = i / n % nbins\<close>.
\<close>

definition poly_ik :: "nat \<Rightarrow> nat \<Rightarrow> nat \<Rightarrow> nat list" where
  "poly_ik order nbins i = map (\<lambda>ii. (i div nbins ^ (order - 1 - ii)) mod nbins) [0..<order]"

text \<open>\<^verbatim>\<open>if(ik[ii] > ik[ii-1]) valid = false\<close> for \<open>ii = 1, ..., order-1\<close>.\<close>

definition poly_valid :: "nat list \<Rightarrow> bool" where
  "poly_valid ik = list_all (\<lambda>ii. \<not> ik ! ii > ik ! (ii - 1)) [1..<length ik]"

text \<open>\<^verbatim>\<open>ksum += k_bin[ik[ii-1]]\<close> for \<open>ii = 1, ..., order-1\<close>.\<close>

definition poly_ksum :: "nat \<Rightarrow> real list \<Rightarrow> nat list \<Rightarrow> real" where
  "poly_ksum nbins k ik = (\<Sum>ii\<leftarrow>[1..<length ik]. k_bin_of nbins k (ik ! (ii - 1)))"

definition poly_integrate_step ::
    "int \<Rightarrow> nat \<Rightarrow> nat \<Rightarrow> nat \<Rightarrow> real list \<Rightarrow> real list list \<Rightarrow> real list list
     \<Rightarrow> nat \<Rightarrow> real list \<times> real list \<Rightarrow> real list \<times> real list" where
  "poly_integrate_step Nmesh N order nbins k F_k N_k i PN =
     (let ik = poly_ik order nbins i in
      if \<not> poly_valid ik then PN
      else if poly_ksum nbins k ik
                < k_bin_of nbins k (ik ! (order - 1)) - real order * deltak_of k / 2
      then ((fst PN)[i := 0], (snd PN)[i := 0])
      else
        (let N123_current = tuple_sum N_k ik * norm_factor Nmesh N;
             F123_current = tuple_sum F_k ik * norm_factor Nmesh N
         in ((fst PN)[i := (if N123_current > 0 then F123_current / N123_current else 0)],
             (snd PN)[i := (if N123_current > 0 then N123_current else 0)])))"

text \<open>
  The closing loop (``Set stuff not computed'') decodes \<open>i\<close> the other way round, with
  \<open>ik[0]\<close> the least significant digit:
  \<^verbatim>\<open>for(int ii = 0, n = 1; ii < order; ii++, n *= nbins) ik[ii] = i / n % nbins\<close>;
  it skips the tuples that fail the same test as above, sorts \<open>ik\<close> increasingly and
  takes \<^verbatim>\<open>index = index * nbins + ik[ii]\<close>.
\<close>

definition poly_ik_fill :: "nat \<Rightarrow> nat \<Rightarrow> nat \<Rightarrow> nat list" where
  "poly_ik_fill order nbins i = map (\<lambda>ii. (i div nbins ^ ii) mod nbins) [0..<order]"

definition cell_index :: "nat \<Rightarrow> nat list \<Rightarrow> nat" where
  "cell_index nbins ik = fold (\<lambda>d index. index * nbins + d) ik 0"

definition poly_fill_step ::
    "nat \<Rightarrow> nat \<Rightarrow> nat \<Rightarrow> real list \<times> real list \<Rightarrow> real list \<times> real list" where
  "poly_fill_step order nbins i PN =
     (let ik = poly_ik_fill order nbins i in
      if \<not> poly_valid ik then PN
      else
        (let index = cell_index nbins (sort ik) in
         (if fst PN ! index = 0 then (fst PN)[index := fst PN ! i] else fst PN,
          if snd PN ! index = 0 then (snd PN)[index := snd PN ! i] else snd PN)))"

definition poly_integrate ::
    "int \<Rightarrow> nat \<Rightarrow> nat \<Rightarrow> nat \<Rightarrow> real list \<Rightarrow> real list list \<Rightarrow> real list list
     \<Rightarrow> real list \<times> real list" where
  "poly_integrate Nmesh N order nbins k F_k N_k =
     fold (poly_integrate_step Nmesh N order nbins k F_k N_k) [0..<nbins ^ order]
          (replicate (nbins ^ order) 0, replicate (nbins ^ order) 0)"

definition poly_fill :: "nat \<Rightarrow> nat \<Rightarrow> real list \<times> real list \<Rightarrow> real list \<times> real list" where
  "poly_fill order nbins PN = fold (poly_fill_step order nbins) [0..<nbins ^ order] PN"

text \<open>
  \<^verbatim>\<open>compute_polyspectrum<N,order>\<close> on a Fourier grid. The two \<^verbatim>\<open>assert\<close>s are the
  error branches; \<^verbatim>\<open>static_assert(order > 1)\<close> is a condition on the instantiation.
\<close>

definition compute_polyspectrum ::
    "nat \<Rightarrow> FFTWGrid \<Rightarrow> real list list \<Rightarrow> real list list \<Rightarrow> PolyspectrumBinning
     \<Rightarrow> error + PolyspectrumBinning" where
  "compute_polyspectrum order density_k F_k N_k polyofk =
     (let nbins = poly_n polyofk in
      if \<not> nbins > 0 then Inl EBadBinning
      else if \<not> nmesh density_k > 0 then Inl EBadGrid
      else
        (let PN = poly_fill order nbins
                    (poly_integrate (nmesh density_k) (ndim density_k) order nbins
                       (poly_k polyofk) F_k N_k)
         in Inr (polyofk\<lparr>P123 := fst PN, N123 := snd PN,
                   poly_kbin := map (k_bin_of nbins (poly_k polyofk)) [0..<nbins],
                   poly_pofk := map (pofk_bin_of density_k nbins (poly_k polyofk)) [0..<nbins]\<rparr>)))"

text \<open>
  What the integration loop of \<^verbatim>\<open>compute_polyspectrum\<close> leaves in \<open>P123[i]\<close> and
  \<open>N123[i]\<close>, both arrays starting at 0.
\<close>

definition poly_P_entry ::
    "int \<Rightarrow> nat \<Rightarrow> nat \<Rightarrow> nat \<Rightarrow> real list \<Rightarrow> real list list \<Rightarrow> real list list \<Rightarrow> nat \<Rightarrow> real" where
  "poly_P_entry Nmesh N order nbins k F_k N_k i =
     (let ik = poly_ik order nbins i in
      if poly_valid ik \<and>
         \<not> poly_ksum nbins k ik < k_bin_of nbins k (ik ! (order - 1)) - real order * deltak_of k / 2 \<and>
         tuple_sum N_k ik * norm_factor Nmesh N > 0
      then tuple_sum F_k ik * norm_factor Nmesh N / (tuple_sum N_k ik * norm_factor Nmesh N)
      else 0)"

definition poly_N_entry ::
    "int \<Rightarrow> nat \<Rightarrow> nat \<Rightarrow> nat \<Rightarrow> real list \<Rightarrow> real list list \<Rightarrow> nat \<Rightarrow> real" where
  "poly_N_entry Nmesh N order nbins k N_k i =
     (let ik = poly_ik order nbins i in
      if poly_valid ik \<and>
         \<not> poly_ksum nbins k ik < k_bin_of nbins k (ik ! (order - 1)) - real order * deltak_of k / 2 \<and>
         tuple_sum N_k ik * norm_factor Nmesh N > 0
      then tuple_sum N_k ik * norm_factor Nmesh N
      else 0)"

subsection \<open>\<^verbatim>\<open>compute_bispectrum\<close>\<close>

text \<open>
  Here the integration loop decodes \<open>i\<close> with \<open>ik[0]\<close> the least significant digit
  (\<^verbatim>\<open>for(int ii = 0, n = 1; ii < 3; ii++, n *= nbins) ik[ii] = i / n % nbins\<close>) and goes
  on for \<open>ik[0] \<le> ik[1] \<le> ik[2]\<close>.
\<close>

definition bis_ik :: "nat \<Rightarrow> nat \<Rightarrow> nat list" where
  "bis_ik nbins i = map (\<lambda>ii. (i div nbins ^ ii) mod nbins) [0..<3]"

definition triple_sum :: "real list list \<Rightarrow> nat list \<Rightarrow> real" where
  "triple_sum shells ik =
     (\<Sum>real_index\<leftarrow>[0..<length (shells ! 0)].
        shells ! (ik ! 0) ! real_index * shells ! (ik ! 1) ! real_index *
        shells ! (ik ! 2) ! real_index)"

definition bis_integrate_step ::
    "FFTWGrid \<Rightarrow> nat \<Rightarrow> real list \<Rightarrow> real list list \<Rightarrow> real list list
     \<Rightarrow> nat \<Rightarrow> real list \<times> real list \<Rightarrow> real list \<times> real list" where
  "bis_integrate_step density_k nbins k F_k N_k i BN =
     (let ik = bis_ik nbins i in
      if ik ! 0 > ik ! 1 \<or> ik ! 1 > ik ! 2 then BN
      else if k_bin_of nbins k (ik ! 0) + k_bin_of nbins k (ik ! 1)
                < k_bin_of nbins k (ik ! 2) - 3 * deltak_of k / 2
      then ((fst BN)[i := 0], (snd BN)[i := 0])
      else
        (let N123_current = triple_sum N_k ik * norm_factor (nmesh density_k) (ndim density_k);
             F123_current = triple_sum F_k ik * norm_factor (nmesh density_k) (ndim density_k);
             B = (if N123_current > 0 then F123_current / N123_current else 0);
             norm = pofk_bin_of density_k nbins k (ik ! 0) * pofk_bin_of density_k nbins k (ik ! 1)
                  + pofk_bin_of density_k nbins k (ik ! 1) * pofk_bin_of density_k nbins k (ik ! 2)
                  + pofk_bin_of density_k nbins k (ik ! 2) * pofk_bin_of density_k nbins k (ik ! 0)
         in ((fst BN)[i := (if norm > 0 then B / norm else B)],
             (snd BN)[i := (if N123_current > 0 then N123_current else 0)])))"

text \<open>
  The closing loop of the bispectrum runs over all \<open>(i, j, k)\<close> and writes the value at
  \<open>(i, j, k)\<close> into each of the six arrangements of the sorted triple that still holds 0.
\<close>

definition bis_fill_step :: "nat \<Rightarrow> nat \<times> nat \<times> nat \<Rightarrow> real list \<Rightarrow> real list" where
  "bis_fill_step nbins ijk B =
     (case ijk of (i, j, k) \<Rightarrow>
        (let index = (i * nbins + j) * nbins + k;
             inds = sort [i, j, k];
             index0 = (inds ! 0 * nbins + inds ! 1) * nbins + inds ! 2;
             index1 = (inds ! 0 * nbins + inds ! 2) * nbins + inds ! 1;
             index2 = (inds ! 1 * nbins + inds ! 2) * nbins + inds ! 0;
             index3 = (inds ! 1 * nbins + inds ! 0) * nbins + inds ! 2;
             index4 = (inds ! 2 * nbins + inds ! 0) * nbins + inds ! 1;
             index5 = (inds ! 2 * nbins + inds ! 1) * nbins + inds ! 0
         in fold (\<lambda>t B. if B ! t = 0 then B[t := B ! index] else B)
                 [index0, index1, index2, index3, index4, index5] B))"

definition bis_triples :: "nat \<Rightarrow> (nat \<times> nat \<times> nat) list" where
  "bis_triples nbins =
     concat (map (\<lambda>i. concat (map (\<lambda>j. map (\<lambda>k. (i, j, k)) [0..<nbins]) [0..<nbins]))
                 [0..<nbins])"

definition compute_bispectrum ::
    "FFTWGrid \<Rightarrow> real list list \<Rightarrow> real list list \<Rightarrow> PolyspectrumBinning
     \<Rightarrow> error + PolyspectrumBinning" where
  "compute_bispectrum density_k F_k N_k bofk =
     (let nbins = poly_n bofk in
      if \<not> nbins > 0 then Inl EBadBinning
      else if \<not> nmesh density_k > 0 then Inl EBadGrid
      else
        (let BN = fold (bis_integrate_step density_k nbins (poly_k bofk) F_k N_k)
                       [0..<nbins ^ 3]
                       (replicate (nbins ^ 3) 0, replicate (nbins ^ 3) 0)
         in Inr (bofk\<lparr>P123 := fold (bis_fill_step nbins) (bis_triples nbins) (fst BN),
                   N123 := snd BN,
                   poly_kbin := map (k_bin_of nbins (poly_k bofk)) [0..<nbins],
                   poly_pofk := map (pofk_bin_of density_k nbins (poly_k bofk)) [0..<nbins]\<rparr>)))"

section \<open>Example inputs\<close>

text \<open>A one-plane grid of mesh size 4 in two dimensions (three owned Fourier cells) and a two-bin binning.\<close>

definition example_grid :: FFTWGrid where
  "example_grid = \<lparr>nmesh = 4, local_nx = 1, ndim = 2, cdelta = (\<lambda>_. 1), wavevector = (\<lambda>_. [0, 0])\<rparr>"

definition example_binning :: PowerSpectrumBinning where
  "example_binning = \<lparr>nbin = 2, kmin = 0, kmax = 2, bin_index = (\<lambda>k. \<lfloor>k\<rfloor>),
     kcentre = [1 / 2, 3 / 2], kbin = [0, 0], pofk = [0, 0], count = [0, 0]\<rparr>"

text \<open>Three moments \<open><|delta|\<^sup>2 mu\<^sup>m>\<close>, \<open>m = 0, 1, 2\<close>, on two bins.\<close>

definition example_moments :: "PowerSpectrumBinning list" where
  "example_moments =
     [example_binning\<lparr>pofk := [1, 5]\<rparr>, example_binning\<lparr>pofk := [2, 7]\<rparr>,
      example_binning\<lparr>pofk := [3, 11]\<rparr>]"

text \<open>
  The grid of the worker that owns \<open>k = 0\<close>: mesh size 2 in two dimensions, both planes
  owned, with the wavevectors of the spec.
\<close>

definition rank0_grid :: FFTWGrid where
  "rank0_grid = \<lparr>nmesh = 2, local_nx = 2, ndim = 2, cdelta = (\<lambda>_. 1),
                  wavevector = spec_wavevector 2 2 0\<rparr>"

text \<open>
  Stand-ins for the external operations, and two particles in two dimensions.
\<close>

definition example_externals :: externals where
  "example_externals =
     \<lparr>new_grid = (\<lambda>Ngrid nleft nright. rank0_grid),
      extra_slices = (\<lambda>method. (1, 1)),
      particles_to_grid = (\<lambda>part NumPartTotal g method. g),
      fftw_r2c = (\<lambda>g. g),
      deconvolve_window_function_fourier = (\<lambda>g method. g),
      communicate_particles = (\<lambda>part. part)\<rparr>"

definition example_part :: "particle list" where
  "example_part = [\<lparr>pos = [9 / 10, 9 / 10], vel = [1 / 5, 0]\<rparr>,
                   \<lparr>pos = [1 / 10, 1 / 2], vel = [0, - 1 / 5]\<rparr>]"

text \<open>
  A field with amplitude 1 in every mode on the grid \<open>rank0_grid\<close> (a point source at the
  origin), and two shells \<open>[4, 8)\<close> and \<open>[8, 12)\<close>: the first holds the modes
  \<open>2\<pi> (0, 1)\<close> and \<open>2\<pi> (1, 0)\<close>, the second \<open>2\<pi> (1, 1)\<close>. The shell fields in real
  space, over the cells \<open>(0,0), (0,1), (1,0), (1,1)\<close>, are
  \<open>(-1)\<^sup>x\<^sup>0 + (-1)\<^sup>x\<^sup>1\<close> and \<open>(-1)\<^sup>x\<^sup>0\<^sup>+\<^sup>x\<^sup>1\<close>, for \<open>F_k\<close> and \<open>N_k\<close> alike.
\<close>

definition point_source_shells :: "real list list" where
  "point_source_shells = [[2, 0, 0, - 2], [1, - 1, - 1, 1]]"

definition two_shell_binning :: PolyspectrumBinning where
  "two_shell_binning = \<lparr>poly_n = 2, poly_k = [4, 12], P123 = [], N123 = [], poly_kbin = [],
                         poly_pofk = []\<rparr>"

text \<open>
  The first slab of a mesh of size 4 in two dimensions: three owned Fourier cells, with
  the wavevectors of the spec (\<open>2\<pi> (0, j)\<close> for \<open>j = 0, 1, 2\<close>) and the amplitudes
  \<open>3 + 4i\<close>, \<open>2i\<close> and \<open>1 + i\<close>.
\<close>

definition slab_grid :: FFTWGrid where
  "slab_grid = \<lparr>nmesh = 4, local_nx = 1, ndim = 2,
     cdelta = (\<lambda>ind. if ind = 0 then Complex 3 4 else if ind = 1 then Complex 0 2 else Complex 1 1),
     wavevector = spec_wavevector 2 4 0\<rparr>"

text \<open>
  Modelled from the spec: a linear binning of the binning class, which is not in the
  sources (``fixed number of bins over \<open>[kmin, kmax]\<close>, linear or logarithmic''): \<open>n\<close>
  bins of equal width, a wavenumber located by its offset from \<open>kmin\<close>, all arrays zero.
\<close>

definition linear_binning :: "nat \<Rightarrow> real \<Rightarrow> real \<Rightarrow> PowerSpectrumBinning" where
  "linear_binning n lo hi =
     \<lparr>nbin = n, kmin = lo, kmax = hi,
      bin_index = (\<lambda>k. \<lfloor>(k - lo) / (hi - lo) * real n\<rfloor>),
      kcentre = map (\<lambda>i. lo + (real i + 1 / 2) * (hi - lo) / real n) [0..<n],
      kbin = replicate n 0, pofk = replicate n 0, count = replicate n 0\<rparr>"

text \<open>
  A concrete instance of the operations of the other headers on the \<open>2 \<times> 2\<close> mesh
  \<open>rank0_grid\<close>, for particles in two dimensions. The scatter is nearest-grid-point: a
  particle falls into the cell \<open>(\<lfloor>2 x\<^sub>0\<rfloor> mod 2, \<lfloor>2 x\<^sub>1\<rfloor> mod 2)\<close>, numbered \<open>2 c\<^sub>0 + c\<^sub>1\<close>,
  and the grid holds the density contrast \<open>4 n\<^sub>c / NumPartTotal - 1\<close>. The transform is
  the discrete Fourier transform of the four cells, divided by the number of cells, the
  Fourier cell \<open>ind\<close> holding the mode \<open>(ind div 2, ind mod 2)\<close>. The window is taken as 1
  and no particle changes worker.
\<close>

definition ngp_cell :: "particle \<Rightarrow> nat" where
  "ngp_cell p = nat (\<lfloor>2 * pos p ! 0\<rfloor> mod 2) * 2 + nat (\<lfloor>2 * pos p ! 1\<rfloor> mod 2)"

definition ngp_scatter :: "particle list \<Rightarrow> nat \<Rightarrow> FFTWGrid \<Rightarrow> string \<Rightarrow> FFTWGrid" where
  "ngp_scatter part NumPartTotal g method =
     g\<lparr>cdelta := (\<lambda>c. of_real (real (length (filter (\<lambda>p. ngp_cell p = c) part)) * 4
                               / real NumPartTotal - 1))\<rparr>"

definition dft4 :: "FFTWGrid \<Rightarrow> FFTWGrid" where
  "dft4 g =
     g\<lparr>cdelta := (\<lambda>ind. (cdelta g 0 + (- 1) ^ (ind mod 2) * cdelta g 1
                            + (- 1) ^ (ind div 2) * cdelta g 2
                            + (- 1) ^ (ind div 2 + ind mod 2) * cdelta g 3) / 4)\<rparr>"

definition ngp_externals :: externals where
  "ngp_externals =
     \<lparr>new_grid = (\<lambda>Ngrid nleft nright. rank0_grid),
      extra_slices = (\<lambda>method. (0, 0)),
      particles_to_grid = ngp_scatter,
      fftw_r2c = dft4,
      deconvolve_window_function_fourier = (\<lambda>g method. g),
      communicate_particles = (\<lambda>part. part)\<rparr>"

text \<open>Two particles in two dimensions, with velocities along the first and the second axis.\<close>

definition pair_part :: "particle list" where
  "pair_part = [\<lparr>pos = [1 / 10, 1 / 10], vel = [1 / 5, 0]\<rparr>,
                \<lparr>pos = [1 / 10, 9 / 10], vel = [0, 1 / 5]\<rparr>]"

text \<open>
  Two particles with \<^verbatim>\<open>double\<close> positions: the \<^verbatim>\<open>double\<close> nearest to 0.9 and the largest
  \<^verbatim>\<open>double\<close> below 1, on both axes.
\<close>

definition near_one :: real where
  "near_one = 1 - 1 / 2 ^ 53"

definition nine_tenths :: real where
  "nine_tenths = 8106479329266893 / 2 ^ 53"

definition double_part :: "particle list" where
  "double_part = [\<lparr>pos = [nine_tenths, nine_tenths], vel = [0, 0]\<rparr>,
                  \<lparr>pos = [near_one, near_one], vel = [0, 0]\<rparr>]"



section \<open>Properties\<close>

subsection \<open>Smoothing filter selection\<close>

text \<open>
  C10. A smoothing method other than "sharpk", "gaussian" and "tophat" fails with the
  unknown-kernel error; "tophat" on a grid whose dimension is neither 2 nor 3 fails with
  the unsupported-dimension error; in both cases the grid the caller holds afterwards is
  the grid it passed in, so no Fourier amplitude was modified.
\<close>

theorem C10_smoothing_filter_errors:
  "(smoothing_method \<noteq> ''sharpk'' \<and> smoothing_method \<noteq> ''gaussian'' \<and>
    smoothing_method \<noteq> ''tophat'' \<longrightarrow>
      smoothing_filter_fourier_space g R smoothing_method = (Some EUnknownKernel, g)) \<and>
   (ndim g \<noteq> 2 \<and> ndim g \<noteq> 3 \<longrightarrow>
      smoothing_filter_fourier_space g R ''tophat'' = (Some EUnsupportedDim, g))"
  by (simp add: smoothing_filter_fourier_space_def select_filter_def)

theorem C10_smoothing_filter_errors_witness:
  "smoothing_filter_fourier_space
     \<lparr>nmesh = 2, local_nx = 2, ndim = 4, cdelta = (\<lambda>_. 1), wavevector = (\<lambda>_. [0, 0, 0, 0])\<rparr>
     1 ''boxcar''
   = (Some EUnknownKernel,
      \<lparr>nmesh = 2, local_nx = 2, ndim = 4, cdelta = (\<lambda>_. 1), wavevector = (\<lambda>_. [0, 0, 0, 0])\<rparr>) \<and>
   smoothing_filter_fourier_space
     \<lparr>nmesh = 2, local_nx = 2, ndim = 4, cdelta = (\<lambda>_. 1), wavevector = (\<lambda>_. [0, 0, 0, 0])\<rparr>
     1 ''tophat''
   = (Some EUnsupportedDim,
      \<lparr>nmesh = 2, local_nx = 2, ndim = 4, cdelta = (\<lambda>_. 1), wavevector = (\<lambda>_. [0, 0, 0, 0])\<rparr>)"
  using C10_smoothing_filter_errors
    [of "''boxcar''"
        "\<lparr>nmesh = 2, local_nx = 2, ndim = 4, cdelta = (\<lambda>_. 1), wavevector = (\<lambda>_. [0, 0, 0, 0])\<rparr>"
        1]
  by simp

subsection \<open>Binning accumulators\<close>

lemma add_to_bin_frame [simp]:
  "nbin (add_to_bin k p w b) = nbin b"
  "bin_index (add_to_bin k p w b) = bin_index b"
  "kmin (add_to_bin k p w b) = kmin b"
  "kmax (add_to_bin k p w b) = kmax b"
  "kcentre (add_to_bin k p w b) = kcentre b"
  "length (pofk (add_to_bin k p w b)) = length (pofk b)"
  "length (kbin (add_to_bin k p w b)) = length (kbin b)"
  "length (count (add_to_bin k p w b)) = length (count b)"
  by (simp_all add: add_to_bin_def Let_def)

lemma add_to_bin_pofk:
  "i < length (pofk b) \<Longrightarrow>
   pofk (add_to_bin k p w b) ! i =
     pofk b ! i + (if bin_index b k = int i \<and> i < nbin b then p * w else 0)"
  by (auto simp: add_to_bin_def Let_def nth_list_update)

lemma add_to_bin_count:
  "i < length (count b) \<Longrightarrow>
   count (add_to_bin k p w b) ! i =
     count b ! i + (if bin_index b k = int i \<and> i < nbin b then w else 0)"
  by (auto simp: add_to_bin_def Let_def nth_list_update)

lemma add_to_bin_kbin:
  "i < length (kbin b) \<Longrightarrow>
   kbin (add_to_bin k p w b) ! i =
     kbin b ! i + (if bin_index b k = int i \<and> i < nbin b then k * w else 0)"
  by (auto simp: add_to_bin_def Let_def nth_list_update)

lemma fold_add_frame [simp]:
  fixes kf pf wf :: "'a \<Rightarrow> real"
  shows
  "nbin (fold (\<lambda>ind. add_to_bin (kf ind) (pf ind) (wf ind)) xs b) = nbin b"
  "bin_index (fold (\<lambda>ind. add_to_bin (kf ind) (pf ind) (wf ind)) xs b) = bin_index b"
  "length (pofk (fold (\<lambda>ind. add_to_bin (kf ind) (pf ind) (wf ind)) xs b)) = length (pofk b)"
  "length (kbin (fold (\<lambda>ind. add_to_bin (kf ind) (pf ind) (wf ind)) xs b)) = length (kbin b)"
  "length (count (fold (\<lambda>ind. add_to_bin (kf ind) (pf ind) (wf ind)) xs b)) = length (count b)"
  by (induction xs arbitrary: b; simp)+

lemma fold_add_pofk:
  fixes kf pf wf :: "'a \<Rightarrow> real"
  shows "i < nbin b \<Longrightarrow> length (pofk b) = nbin b \<Longrightarrow>
   pofk (fold (\<lambda>ind. add_to_bin (kf ind) (pf ind) (wf ind)) xs b) ! i =
     pofk b ! i + (\<Sum>ind\<leftarrow>filter (\<lambda>ind. bin_index b (kf ind) = int i) xs. pf ind * wf ind)"
  by (induction xs arbitrary: b) (simp_all add: add_to_bin_pofk)

lemma fold_add_count:
  fixes kf pf wf :: "'a \<Rightarrow> real"
  shows "i < nbin b \<Longrightarrow> length (count b) = nbin b \<Longrightarrow>
   count (fold (\<lambda>ind. add_to_bin (kf ind) (pf ind) (wf ind)) xs b) ! i =
     count b ! i + (\<Sum>ind\<leftarrow>filter (\<lambda>ind. bin_index b (kf ind) = int i) xs. wf ind)"
  by (induction xs arbitrary: b) (simp_all add: add_to_bin_count)

lemma fold_add_kbin:
  fixes kf pf wf :: "'a \<Rightarrow> real"
  shows "i < nbin b \<Longrightarrow> length (kbin b) = nbin b \<Longrightarrow>
   kbin (fold (\<lambda>ind. add_to_bin (kf ind) (pf ind) (wf ind)) xs b) ! i =
     kbin b ! i + (\<Sum>ind\<leftarrow>filter (\<lambda>ind. bin_index b (kf ind) = int i) xs. kf ind * wf ind)"
  by (induction xs arbitrary: b) (simp_all add: add_to_bin_kbin)

lemma reset_frame [simp]:
  "nbin (reset b) = nbin b" "bin_index (reset b) = bin_index b"
  "length (pofk (reset b)) = nbin b" "length (kbin (reset b)) = nbin b"
  "length (count (reset b)) = nbin b"
  "i < nbin b \<Longrightarrow> pofk (reset b) ! i = 0"
  "i < nbin b \<Longrightarrow> kbin (reset b) ! i = 0"
  "i < nbin b \<Longrightarrow> count (reset b) ! i = 0"
  by (simp_all add: reset_def)

lemma last_coord_range:
  assumes "0 < nmesh g"
  shows "0 \<le> last_coord g ind \<and> last_coord g ind \<le> nmesh g div 2"
proof -
  have m: "0 < nmesh g div 2 + 1" using assms by simp
  have "0 \<le> int ind mod (nmesh g div 2 + 1)"
    using m by (rule pos_mod_sign)
  moreover have "int ind mod (nmesh g div 2 + 1) < nmesh g div 2 + 1"
    using m by (rule pos_mod_bound)
  ultimately show ?thesis by (simp add: last_coord_def)
qed

subsection \<open>Weights of \<^verbatim>\<open>bin_up_power_spectrum\<close>\<close>

text \<open>The wavenumbers, bins and squared moduli of the example slab.\<close>

lemma sqrt_square: "0 \<le> x \<Longrightarrow> sqrt (x * x) = x"
  by simp

lemma slab_kmag:
  "kmag_of slab_grid 0 = 0" "kmag_of slab_grid (Suc 0) = 2 * pi" "kmag_of slab_grid 2 = 4 * pi"
proof -
  have w: "wavevector slab_grid 0 = [0, 0]" "wavevector slab_grid (Suc 0) = [0, 2 * pi]"
    "wavevector slab_grid 2 = [0, 4 * pi]"
    by (simp_all add: slab_grid_def spec_wavevector_def spec_fourier_coord_def upt_rec)
  show "kmag_of slab_grid 0 = 0" by (simp add: kmag_of_def w)
  show "kmag_of slab_grid (Suc 0) = 2 * pi"
    using sqrt_square [of "2 * pi"] by (simp add: kmag_of_def w)
  show "kmag_of slab_grid 2 = 4 * pi"
    using sqrt_square [of "4 * pi"] by (simp add: kmag_of_def w)
qed

lemma floor_quarter_pi: "\<lfloor>pi / 4\<rfloor> = 0"
  using pi_gt_zero pi_less_4 by (simp add: floor_eq_iff)

lemma floor_half_pi: "\<lfloor>pi / 2\<rfloor> = 1"
  using pi_ge_two pi_less_4 by (simp add: floor_eq_iff)

lemma slab_bins:
  "bin_index (linear_binning 2 0 16) (kmag_of slab_grid 0) = 0"
  "bin_index (linear_binning 2 0 16) (kmag_of slab_grid (Suc 0)) = 0"
  "bin_index (linear_binning 2 0 16) (kmag_of slab_grid 2) = 1"
  by (simp_all add: slab_kmag linear_binning_def floor_quarter_pi floor_half_pi)

lemma slab_norm:
  "(cmod (cdelta slab_grid 0))\<^sup>2 = 25" "(cmod (cdelta slab_grid (Suc 0)))\<^sup>2 = 4"
  "(cmod (cdelta slab_grid 2))\<^sup>2 = 2"
  by (simp_all add: slab_grid_def cmod_power2)

text \<open>
  C1. For a grid with \<open>Nmesh > 0\<close> and a binning with at least one bin and
  \<open>kmax > kmin \<ge> 0\<close>, \<^verbatim>\<open>bin_up_power_spectrum\<close> passes its checks and returns the
  normalised accumulation; before the normalisation bin \<open>i\<close> holds the sum, over the
  owned Fourier indices whose \<open>|k|\<close> is located in bin \<open>i\<close>, of \<open>|delta(k)|\<^sup>2\<close> times the
  weight, \<open>kbin\<close> the sum of \<open>|k|\<close> times the weight, and the count the sum of the
  weights. The weight is 2 when \<open>0 < last_coord < Nmesh/2\<close> and 1 when \<open>last_coord\<close> is 0
  or \<open>Nmesh/2\<close> (the integer quotient of the code); \<open>last_coord\<close> always lies in
  \<open>[0, Nmesh/2]\<close>, so these cases cover every index.
\<close>

theorem C1_bin_up_weights:
  assumes "0 < nmesh g" and "1 \<le> nbin b" and "kmin b < kmax b" and "0 \<le> kmin b"
  shows "bin_up_power_spectrum g b = Inr (normalize (bin_up_accumulate g b)) \<and>
    (\<forall>i<nbin b.
       pofk (bin_up_accumulate g b) ! i =
         (\<Sum>ind\<leftarrow>filter (\<lambda>ind. bin_index b (kmag_of g ind) = int i) [0..<NmeshTotLocal g].
             (cmod (cdelta g ind))\<^sup>2 * mode_weight g ind) \<and>
       kbin (bin_up_accumulate g b) ! i =
         (\<Sum>ind\<leftarrow>filter (\<lambda>ind. bin_index b (kmag_of g ind) = int i) [0..<NmeshTotLocal g].
             kmag_of g ind * mode_weight g ind) \<and>
       count (bin_up_accumulate g b) ! i =
         (\<Sum>ind\<leftarrow>filter (\<lambda>ind. bin_index b (kmag_of g ind) = int i) [0..<NmeshTotLocal g].
             mode_weight g ind)) \<and>
    (\<forall>ind. (0 < last_coord g ind \<and> last_coord g ind < nmesh g div 2 \<longrightarrow> mode_weight g ind = 2) \<and>
           (last_coord g ind = 0 \<or> last_coord g ind = nmesh g div 2 \<longrightarrow> mode_weight g ind = 1) \<and>
           0 \<le> last_coord g ind \<and> last_coord g ind \<le> nmesh g div 2)"
proof (intro conjI allI impI)
  show "bin_up_power_spectrum g b = Inr (normalize (bin_up_accumulate g b))"
    using assms by (simp add: bin_up_power_spectrum_def)
next
  fix i assume i: "i < nbin b"
  have acc: "bin_up_accumulate g b =
      fold (\<lambda>ind. add_to_bin (kmag_of g ind) ((cmod (cdelta g ind))\<^sup>2) (mode_weight g ind))
        [0..<NmeshTotLocal g] (reset b)"
    by (simp add: bin_up_accumulate_def bin_up_cell_def delta_norm_def)
  show "pofk (bin_up_accumulate g b) ! i =
         (\<Sum>ind\<leftarrow>filter (\<lambda>ind. bin_index b (kmag_of g ind) = int i) [0..<NmeshTotLocal g].
             (cmod (cdelta g ind))\<^sup>2 * mode_weight g ind)"
    unfolding acc using i by (subst fold_add_pofk) simp_all
  show "kbin (bin_up_accumulate g b) ! i =
         (\<Sum>ind\<leftarrow>filter (\<lambda>ind. bin_index b (kmag_of g ind) = int i) [0..<NmeshTotLocal g].
             kmag_of g ind * mode_weight g ind)"
    unfolding acc using i by (subst fold_add_kbin) simp_all
  show "count (bin_up_accumulate g b) ! i =
         (\<Sum>ind\<leftarrow>filter (\<lambda>ind. bin_index b (kmag_of g ind) = int i) [0..<NmeshTotLocal g].
             mode_weight g ind)"
    unfolding acc using i by (subst fold_add_count) simp_all
next
  fix ind
  show "0 \<le> last_coord g ind" "last_coord g ind \<le> nmesh g div 2"
    using last_coord_range [OF assms(1)] by simp_all
  { assume "0 < last_coord g ind \<and> last_coord g ind < nmesh g div 2"
    then show "mode_weight g ind = 2" by (simp add: mode_weight_def) }
  { assume "last_coord g ind = 0 \<or> last_coord g ind = nmesh g div 2"
    then show "mode_weight g ind = 1" by (auto simp: mode_weight_def) }
qed

theorem C1_bin_up_weights_witness:
  "0 < nmesh slab_grid \<and> 1 \<le> nbin (linear_binning 2 0 16) \<and>
   kmin (linear_binning 2 0 16) < kmax (linear_binning 2 0 16) \<and>
   0 \<le> kmin (linear_binning 2 0 16) \<and>
   bin_up_power_spectrum slab_grid (linear_binning 2 0 16) =
     Inr (normalize (bin_up_accumulate slab_grid (linear_binning 2 0 16))) \<and>
   pofk (bin_up_accumulate slab_grid (linear_binning 2 0 16)) ! 0 = 25 * 1 + 4 * 2 \<and>
   count (bin_up_accumulate slab_grid (linear_binning 2 0 16)) ! 0 = 1 + 2 \<and>
   pofk (bin_up_accumulate slab_grid (linear_binning 2 0 16)) ! 1 = 2 * 1 \<and>
   count (bin_up_accumulate slab_grid (linear_binning 2 0 16)) ! 1 = 1 \<and>
   last_coord slab_grid 0 = 0 \<and> last_coord slab_grid 1 = 1 \<and> last_coord slab_grid 2 = 2 \<and>
   mode_weight slab_grid 0 = 1 \<and> mode_weight slab_grid 1 = 2 \<and> mode_weight slab_grid 2 = 1"
proof -
  have h: "0 < nmesh slab_grid" "1 \<le> nbin (linear_binning 2 0 16)"
    "kmin (linear_binning 2 0 16) < kmax (linear_binning 2 0 16)"
    "0 \<le> kmin (linear_binning 2 0 16)"
    by (simp_all add: slab_grid_def linear_binning_def)
  have r: "[0..<NmeshTotLocal slab_grid] = [0, Suc 0, 2]"
    by (simp add: NmeshTotLocal_def slab_grid_def upt_rec)
  have l: "last_coord slab_grid 0 = 0" "last_coord slab_grid (Suc 0) = 1"
    "last_coord slab_grid 2 = 2"
    by (simp_all add: last_coord_def slab_grid_def)
  have w: "mode_weight slab_grid 0 = 1" "mode_weight slab_grid (Suc 0) = 2"
    "mode_weight slab_grid 2 = 1"
    by (simp_all add: mode_weight_def l) (simp_all add: slab_grid_def)
  have n: "(0::nat) < nbin (linear_binning 2 0 16)" "Suc 0 < nbin (linear_binning 2 0 16)"
    by (simp_all add: linear_binning_def)
  note t = C1_bin_up_weights [OF h]
  from t n have "pofk (bin_up_accumulate slab_grid (linear_binning 2 0 16)) ! 0 = 33"
    and "count (bin_up_accumulate slab_grid (linear_binning 2 0 16)) ! 0 = 3"
    and "pofk (bin_up_accumulate slab_grid (linear_binning 2 0 16)) ! 1 = 2"
    and "count (bin_up_accumulate slab_grid (linear_binning 2 0 16)) ! 1 = 1"
    by (simp_all add: r slab_bins slab_norm w)
  with t h l w show ?thesis by simp
qed

subsection \<open>Legendre projection of the multipole moments\<close>

lemma fold_mult_prod:
  "fold (\<lambda>i res. res * f i) [0..<k] (a::real) = a * (\<Prod>i = 0..<k. f i)"
  by (induction k) simp_all

lemma binomial_lam_gchoose: "binomial_lam a (real k) = a gchoose k"
proof -
  have "binomial_lam a (real k) = (\<Prod>i = 0..<k. (a - real i) / (real k - real i))"
    using fold_mult_prod [of "\<lambda>i. (a - real i) / (real k - real i)" k 1]
    by (simp add: binomial_lam_def)
  also have "\<dots> = (\<Prod>i = 0..<k. (a - of_nat i) / of_nat (k - i))"
    by (intro prod.cong) (simp_all add: of_nat_diff)
  also have "\<dots> = a gchoose k"
    by (simp add: gbinomial_altdef_of_nat)
  finally show ?thesis .
qed

lemma summand_legendre_polynomial_closed:
  assumes "2 * m \<le> ell"
  shows "summand_legendre_polynomial m ell =
           (- 1) ^ m * real (ell choose m) * real ((2 * ell - 2 * m) choose ell) / 2 ^ ell"
proof -
  have s: "(if m mod 2 = 0 then 1 else - 1) = ((- 1) ^ m :: real)"
    by (cases "even m") (simp_all add: even_iff_mod_2_eq_zero)
  have a: "real_of_int (2 * int ell - 2 * int m) = real (2 * ell - 2 * m)"
    using assms by (simp add: of_nat_diff)
  show ?thesis
    unfolding summand_legendre_polynomial_def Let_def s a binomial_lam_gchoose
    by (simp add: binomial_gbinomial)
qed


lemma legendre_fold_nth:
  "i < length init \<Longrightarrow>
   fold (\<lambda>k sum. map (\<lambda>i. sum ! i + f k i) [0..<length sum]) ks init ! i =
     init ! i + (\<Sum>k\<leftarrow>ks. (f k i :: real))"
  by (induction ks arbitrary: init) simp_all

lemma legendre_sum_nth:
  assumes "i < length (pofk (Pell ! 0))"
  shows "legendre_sum Pell ell ! i =
    (\<Sum>m = 0..ell div 2. summand_legendre_polynomial m ell * pofk (Pell ! (ell - 2 * m)) ! i)"
proof -
  have "legendre_sum Pell ell ! i =
      (\<Sum>k\<leftarrow>[0..<ell div 2 + 1]. pofk (Pell ! (ell - 2 * k)) ! i * summand_legendre_polynomial k ell)"
    unfolding legendre_sum_def using assms by (subst legendre_fold_nth) simp_all
  also have "\<dots> = (\<Sum>m = 0..<ell div 2 + 1. pofk (Pell ! (ell - 2 * m)) ! i * summand_legendre_polynomial m ell)"
    by (simp add: interv_sum_list_conv_sum_set_nat)
  also have "{0..<ell div 2 + 1} = {0..ell div 2}" by auto
  finally show ?thesis by (simp add: mult.commute)
qed

text \<open>
  C6. The grid-based \<^verbatim>\<open>compute_power_spectrum_multipoles\<close> returns the Legendre
  projection of the moments it accumulated, and for every \<open>ell\<close> below the number of
  binnings and every bin \<open>i\<close> the projected value is
  \<open>P\<^sub>e\<^sub>l\<^sub>l = \<Sum>m=0..ell div 2. c(ell, m) * <|delta|\<^sup>2 mu\<^sup>e\<^sup>l\<^sup>l\<^sup>-\<^sup>2\<^sup>m>\<close> with
  \<open>c(ell, m) = (-1)\<^sup>m * binom(ell, m) * binom(2 ell - 2 m, ell) / 2\<^sup>e\<^sup>l\<^sup>l\<close>. The binomial
  coefficients are those of HOL; the code computes them by the product
  \<open>\<Prod>i<k. (n - i) / (k - i)\<close>. All binnings have the number of bins of \<open>Pell[0]\<close>, as the
  code takes for granted when it indexes them.
\<close>

theorem C6_legendre_projection:
  "compute_power_spectrum_multipoles g Pell los =
     (case multipole_moments g Pell los of
        Inl e \<Rightarrow> Inl e | Inr moments \<Rightarrow> Inr (legendre_project moments)) \<and>
   (ell < length moments \<and> i < length (pofk (moments ! 0)) \<longrightarrow>
      pofk (legendre_project moments ! ell) ! i =
        (\<Sum>m = 0..ell div 2.
           ((- 1) ^ m * real (ell choose m) * real ((2 * ell - 2 * m) choose ell) / 2 ^ ell) *
           pofk (moments ! (ell - 2 * m)) ! i))"
proof (intro conjI impI)
  show "compute_power_spectrum_multipoles g Pell los =
     (case multipole_moments g Pell los of
        Inl e \<Rightarrow> Inl e | Inr moments \<Rightarrow> Inr (legendre_project moments))"
    by (simp add: compute_power_spectrum_multipoles_def)
next
  assume h: "ell < length moments \<and> i < length (pofk (moments ! 0))"
  then have "pofk (legendre_project moments ! ell) ! i = legendre_sum moments ell ! i"
    by (simp add: legendre_project_def)
  also have "\<dots> = (\<Sum>m = 0..ell div 2. summand_legendre_polynomial m ell * pofk (moments ! (ell - 2 * m)) ! i)"
    using h by (simp add: legendre_sum_nth)
  also have "\<dots> = (\<Sum>m = 0..ell div 2.
           ((- 1) ^ m * real (ell choose m) * real ((2 * ell - 2 * m) choose ell) / 2 ^ ell) *
           pofk (moments ! (ell - 2 * m)) ! i)"
    by (intro sum.cong refl) (simp add: summand_legendre_polynomial_closed)
  finally show "pofk (legendre_project moments ! ell) ! i =
        (\<Sum>m = 0..ell div 2.
           ((- 1) ^ m * real (ell choose m) * real ((2 * ell - 2 * m) choose ell) / 2 ^ ell) *
           pofk (moments ! (ell - 2 * m)) ! i)" .
qed

theorem C6_legendre_projection_witness:
  "2 < length example_moments \<and> 1 < length (pofk (example_moments ! 0)) \<and>
   pofk (legendre_project example_moments ! 2) ! 1 = 3 / 2 * 11 - 1 / 2 * 5"
proof -
  have h: "2 < length example_moments \<and> 1 < length (pofk (example_moments ! 0))"
    by (simp add: example_moments_def)
  have s: "{0..2 div 2} = {0, Suc 0}" by auto
  have c: "(2::nat) choose 0 = 1" "(4::nat) choose 2 = 6" "(2::nat) choose Suc 0 = 2"
    "(2::nat) choose 2 = 1"
    by (simp_all add: eval_nat_numeral binomial_Suc_Suc)
  from C6_legendre_projection [of example_grid "[example_binning]" "[0, 1]" 2 example_moments 1] h
  have "pofk (legendre_project example_moments ! 2) ! 1 =
        (\<Sum>m = 0..2 div 2.
           ((- 1) ^ m * real (2 choose m) * real ((2 * 2 - 2 * m) choose 2) / 2 ^ 2) *
           pofk (example_moments ! (2 - 2 * m)) ! 1)"
    by simp
  also have "\<dots> = 3 / 2 * 11 - 1 / 2 * 5"
    unfolding s by (simp add: c example_moments_def)
  finally show ?thesis using h by simp
qed

subsection \<open>The cosine \<open>mu\<close> at \<open>k = 0\<close>\<close>

lemma rank0_k0: "wavevector rank0_grid 0 = [0, 0]"
  by (simp add: rank0_grid_def spec_wavevector_def spec_fourier_coord_def upt_rec)

text \<open>
  Wherever the wavevector of a cell is zero the divisor is zero, whatever the line of
  sight; with the wavevectors of the spec this is local index 0 of the worker whose planes
  start at 0, for every mesh size and every dimension from 2 on.
\<close>

lemma zero_wavevector_zero_divisor:
  assumes "list_all (\<lambda>x. x = 0) (wavevector g ind)"
  shows "mu_divisor g los ind = 0" and "mu_of g los ind = None"
proof -
  have "sum_list (map (\<lambda>x. x * x) xs) = 0" if "list_all (\<lambda>x. x = 0) xs" for xs :: "real list"
    using that by (induction xs) simp_all
  then have "kmag_of g ind = 0" using assms by (simp add: kmag_of_def)
  then show "mu_divisor g los ind = 0" by (simp add: mu_divisor_def)
  then show "mu_of g los ind = None" by (simp add: mu_of_def)
qed

lemma spec_wavevector_origin:
  assumes "0 < Nmesh" and "2 \<le> N"
  shows "list_all (\<lambda>x. x = 0) (spec_wavevector N Nmesh 0 0)"
proof -
  have c: "spec_fourier_coord N Nmesh 0 0 ! j = 0" if "j < N" for j
  proof -
    have l: "length (0 # map (\<lambda>j. (0::int)) [1..<N - 1]) = N - 1" using assms by simp
    have "spec_fourier_coord N Nmesh 0 0 = (0 # map (\<lambda>j. 0) [1..<N - 1]) @ [0]"
      by (simp add: spec_fourier_coord_def)
    moreover have "((0 # map (\<lambda>j. (0::int)) [1..<N - 1]) @ [0]) ! j = 0"
    proof (cases "j < N - 1")
      case True
      then show ?thesis
        unfolding nth_append l by (cases j) simp_all
    next
      case False
      with that have "j = N - 1" by simp
      then show ?thesis unfolding nth_append l by simp
    qed
    ultimately show ?thesis by simp
  qed
  show ?thesis
    using assms c by (auto simp: spec_wavevector_def Let_def list_all_iff)
qed

text \<open>
  C8. On the worker that owns \<open>k = 0\<close> the binning loop does process local index 0, whose
  wavevector is zero: there the divisor \<open>kmag * rnorm\<close> is 0 and \<open>mu\<close> is not a finite
  number. With two multipoles and a binning that starts at \<open>kmin = 0\<close> this value is added
  to bin 0 of \<open>Pell[1]\<close>. The grid has mesh size 2 in two dimensions; the line of sight
  is the second axis.
\<close>

theorem C8_zero_divisor_at_k0:
  "0 \<in> set [0..<NmeshTotLocal rank0_grid] \<and>
   wavevector rank0_grid 0 = [0, 0] \<and>
   mu_divisor rank0_grid [0, 1] 0 = 0 \<and>
   mu_of rank0_grid [0, 1] 0 = None \<and>
   compute_power_spectrum_multipoles rank0_grid [example_binning, example_binning] [0, 1]
     = Inl ENotANumber"
proof -
  have n: "NmeshTotLocal rank0_grid = 4"
    by (simp add: NmeshTotLocal_def rank0_grid_def)
  have k: "kmag_of rank0_grid 0 = 0"
    by (simp add: kmag_of_def rank0_k0)
  have d: "mu_divisor rank0_grid [0, 1] 0 = 0"
    by (simp add: mu_divisor_def k)
  have m: "mu_of rank0_grid [0, 1] 0 = None"
    by (simp add: mu_of_def d)
  have r: "rnorm_of (ndim rank0_grid) [0, 1] = 1"
    by (simp add: rnorm_of_def rank0_grid_def upt_rec)
  have c: "multipole_cell rank0_grid [0, 1] 0 (map reset [example_binning, example_binning])
            = Inl ENotANumber"
    by (simp add: multipole_cell_def k m mul_opt_def add_to_bin_nan_def reset_def
        example_binning_def)
  have "[0..<NmeshTotLocal rank0_grid] = 0 # [1..<4]"
    by (simp add: n upt_rec)
  then have "multipoles_accumulate rank0_grid [0, 1] [0..<NmeshTotLocal rank0_grid]
              (map reset [example_binning, example_binning]) = Inl ENotANumber"
    using c by simp
  then have "compute_power_spectrum_multipoles rank0_grid [example_binning, example_binning] [0, 1]
     = Inl ENotANumber"
    by (simp add: compute_power_spectrum_multipoles_def multipole_moments_def r)
      (simp add: rank0_grid_def)
  then show ?thesis using d m rank0_k0 n by simp
qed

subsection \<open>The interlacing shift\<close>

lemma shift_axis_length [simp]: "length (shift_axis s j x) = length x"
  by (simp add: shift_axis_def Let_def)

lemma shift_axis_nth:
  "j < length x \<Longrightarrow> shift_axis s j x ! i =
     (if i = j then (if 1 \<le> x ! j + s then x ! j + s - 1 else x ! j + s) else x ! i)"
  by (simp add: shift_axis_def Let_def nth_list_update)

lemma fold_shift_axis_length [simp]: "length (fold (shift_axis s) js x) = length x"
  by (induction js arbitrary: x) simp_all

lemma fold_shift_axis_nth:
  "distinct js \<Longrightarrow> list_all (\<lambda>j. j < length x) js \<Longrightarrow>
   fold (shift_axis s) js x ! i =
     (if i \<in> set js then (if 1 \<le> x ! i + s then x ! i + s - 1 else x ! i + s) else x ! i)"
proof (induction js arbitrary: x)
  case Nil
  then show ?case by simp
next
  case (Cons j js)
  have "fold (shift_axis s) js (shift_axis s j x) ! i =
     (if i \<in> set js then (if 1 \<le> shift_axis s j x ! i + s then shift_axis s j x ! i + s - 1
                           else shift_axis s j x ! i + s) else shift_axis s j x ! i)"
    using Cons.prems by (intro Cons.IH) simp_all
  then show ?case using Cons.prems by (auto simp: shift_axis_nth)
qed

lemma shift_particle_nth:
  assumes "length (pos p) = N" and "j < N"
  shows "pos (shift_particle N s p) ! j =
     (if 1 \<le> j \<and> 1 \<le> pos p ! j + s then pos p ! j + s - 1 else pos p ! j + s)"
proof -
  have "list_all (\<lambda>j. j < length ((pos p)[0 := pos p ! 0 + s])) [1..<N]"
    using assms by (simp add: list_all_iff)
  then have "fold (shift_axis s) [1..<N] ((pos p)[0 := pos p ! 0 + s]) ! j =
     (if j \<in> set [1..<N] then
        (if 1 \<le> (pos p)[0 := pos p ! 0 + s] ! j + s then (pos p)[0 := pos p ! 0 + s] ! j + s - 1
         else (pos p)[0 := pos p ! 0 + s] ! j + s)
      else (pos p)[0 := pos p ! 0 + s] ! j)"
    by (intro fold_shift_axis_nth) simp_all
  then show ?thesis using assms by (cases "j = 0") (auto simp: shift_particle_def)
qed

lemma shift_particle_frame [simp]:
  "length (pos (shift_particle N s p)) = length (pos p)"
  "vel (shift_particle N s p) = vel p"
  by (simp_all add: shift_particle_def)

subsection \<open>Rounding to double\<close>

lemma round_half_even_error: "\<bar>of_int (round_half_even y) - y\<bar> \<le> 1 / 2"
proof -
  have "of_int \<lfloor>y\<rfloor> \<le> y" "y < of_int \<lfloor>y\<rfloor> + 1" by linarith+
  then show ?thesis
    by (auto simp: round_half_even_def Let_def)
qed

lemma double_exponent_eq:
  assumes "2 powi e \<le> \<bar>x\<bar>" and "\<bar>x\<bar> < 2 powi (e + 1)" and "- 1022 \<le> e"
  shows "double_exponent x = e"
proof -
  have p: "0 < \<bar>x\<bar>" using assms(1) zero_less_power_int [of "2::real" e] by linarith
  have "(2::real) powr real_of_int e = 2 powi e" "(2::real) powr (real_of_int e + 1) = 2 powi (e + 1)"
    using powr_real_of_int' [of "2::real" e] powr_real_of_int' [of "2::real" "e + 1"] by simp_all
  then have "\<lfloor>log 2 \<bar>x\<bar>\<rfloor> = e"
    using assms p by (simp add: floor_log_eq_powr_iff)
  then show ?thesis using assms(3) by (simp add: double_exponent_def)
qed

lemma double_exponent_small:
  assumes "x \<noteq> 0" and "\<bar>x\<bar> < 2"
  shows "double_exponent x \<le> 0"
proof -
  have "log 2 \<bar>x\<bar> < 1" using assms by (simp add: log_less_iff)
  then have "\<lfloor>log 2 \<bar>x\<bar>\<rfloor> \<le> 0" by linarith
  then show ?thesis by (simp add: double_exponent_def)
qed

lemma double_round_error:
  assumes "\<bar>x\<bar> < 2"
  shows "\<bar>double_round x - x\<bar> \<le> 1 / 2 ^ 53"
proof (cases "x = 0")
  case True
  then show ?thesis by (simp add: double_round_def)
next
  case False
  define s :: real where "s = 2 powi (double_exponent x - 52)"
  have s0: "0 < s" by (simp add: s_def)
  have "double_exponent x - 52 \<le> - 52" using double_exponent_small [OF False assms] by simp
  then have "s \<le> 2 powi (- 52)" unfolding s_def by (intro power_int_increasing) simp_all
  then have s52: "s \<le> 1 / 2 ^ 52" by (simp add: power_int_minus_divide)
  have "\<bar>of_int (round_half_even (x / s)) - x / s\<bar> \<le> 1 / 2" by (rule round_half_even_error)
  then have "\<bar>of_int (round_half_even (x / s)) - x / s\<bar> * s \<le> 1 / 2 * s"
    using s0 by (intro mult_right_mono) simp_all
  moreover have "\<bar>of_int (round_half_even (x / s)) - x / s\<bar> * s =
      \<bar>of_int (round_half_even (x / s)) * s - x\<bar>"
  proof -
    have e: "of_int (round_half_even (x / s)) * s - x =
        (of_int (round_half_even (x / s)) - x / s) * s"
      using s0 by (simp add: field_simps)
    show ?thesis unfolding e abs_mult using s0 by simp
  qed
  ultimately have "\<bar>of_int (round_half_even (x / s)) * s - x\<bar> \<le> 1 / 2 * s" by simp
  also have "\<dots> \<le> 1 / 2 ^ 53" using s52 by simp
  finally show ?thesis using False by (simp add: double_round_def s_def)
qed


lemma double_round_eval:
  assumes "2 powi e \<le> \<bar>x\<bar>" and "\<bar>x\<bar> < 2 powi (e + 1)" and "- 1022 \<le> e"
  shows "double_round x = of_int (round_half_even (x / 2 powi (e - 52))) * 2 powi (e - 52)"
proof -
  have "(0::real) < 2 powi e" by simp
  with assms(1) have "0 < \<bar>x\<bar>" by linarith
  then have "x \<noteq> 0" by auto
  then show ?thesis using double_exponent_eq [OF assms] by (simp add: double_round_def)
qed

lemma round_half_even_ge: "of_int M \<le> y \<Longrightarrow> M \<le> round_half_even y"
proof -
  assume "of_int M \<le> y"
  then have "M \<le> \<lfloor>y\<rfloor>" by (simp add: le_floor_iff)
  then show ?thesis by (auto simp: round_half_even_def Let_def)
qed

lemma round_half_even_le: "y \<le> of_int M \<Longrightarrow> round_half_even y \<le> M"
proof -
  assume y: "y \<le> of_int M"
  have f: "of_int \<lfloor>y\<rfloor> \<le> y" by linarith
  show ?thesis
  proof (cases "y - of_int \<lfloor>y\<rfloor> < 1 / 2")
    case True
    then have "round_half_even y = \<lfloor>y\<rfloor>" by (simp add: round_half_even_def Let_def)
    moreover have "\<lfloor>y\<rfloor> \<le> M" using y by (simp add: floor_le_iff)
    ultimately show ?thesis by simp
  next
    case False
    then have "of_int \<lfloor>y\<rfloor> < y" by linarith
    then have "real_of_int \<lfloor>y\<rfloor> < of_int M" using y by linarith
    then have "\<lfloor>y\<rfloor> + 1 \<le> M" by linarith
    moreover have "round_half_even y \<le> \<lfloor>y\<rfloor> + 1" by (auto simp: round_half_even_def Let_def)
    ultimately show ?thesis by linarith
  qed
qed

lemma double_round_nonneg: "0 \<le> x \<Longrightarrow> 0 \<le> double_round x"
proof -
  assume x: "0 \<le> x"
  have "of_int 0 \<le> x / 2 powi (double_exponent x - 52)" using x by simp
  then have "0 \<le> round_half_even (x / 2 powi (double_exponent x - 52))"
    by (rule round_half_even_ge)
  then show ?thesis by (simp add: double_round_def)
qed

lemma double_exponent_upper:
  assumes "x \<noteq> 0"
  shows "\<bar>x\<bar> < 2 powi (double_exponent x + 1)"
proof -
  have p: "0 < \<bar>x\<bar>" using assms by simp
  have "\<bar>x\<bar> < 2 powr (real_of_int \<lfloor>log 2 \<bar>x\<bar>\<rfloor> + 1)"
    using p floor_log_eq_powr_iff [of "\<bar>x\<bar>" 2 "\<lfloor>log 2 \<bar>x\<bar>\<rfloor>"] by simp
  also have "\<dots> = 2 powi (\<lfloor>log 2 \<bar>x\<bar>\<rfloor> + 1)"
    using powr_real_of_int' [of "2::real" "\<lfloor>log 2 \<bar>x\<bar>\<rfloor> + 1"] by simp
  also have "\<dots> \<le> 2 powi (double_exponent x + 1)"
    by (intro power_int_increasing) (simp_all add: double_exponent_def)
  finally show ?thesis .
qed

lemma double_exponent_lower:
  assumes "x \<noteq> 0" and "- 1022 < double_exponent x"
  shows "2 powi (double_exponent x) \<le> \<bar>x\<bar>"
proof -
  have p: "0 < \<bar>x\<bar>" using assms by simp
  have e: "double_exponent x = \<lfloor>log 2 \<bar>x\<bar>\<rfloor>" using assms(2) by (simp add: double_exponent_def)
  have "2 powr (real_of_int \<lfloor>log 2 \<bar>x\<bar>\<rfloor>) \<le> \<bar>x\<bar>"
    using p floor_log_eq_powr_iff [of "\<bar>x\<bar>" 2 "\<lfloor>log 2 \<bar>x\<bar>\<rfloor>"] by simp
  then show ?thesis
    using powr_real_of_int' [of "2::real" "\<lfloor>log 2 \<bar>x\<bar>\<rfloor>"] by (simp add: e)
qed

lemma double_exponent_ge: "- 1022 \<le> double_exponent x"
  by (simp add: double_exponent_def)

lemma two_powi_split:
  "(2::real) powi (e + 1) = 2 ^ 53 * 2 powi (e - 52)"
  "(2::real) powi e = 2 ^ 52 * 2 powi (e - 52)"
proof -
  have "(2::real) powi (e + 1) = 2 powi (53 + (e - 52))" by (simp add: algebra_simps)
  also have "\<dots> = 2 powi 53 * 2 powi (e - 52)" by (rule power_int_add) simp
  finally show "(2::real) powi (e + 1) = 2 ^ 53 * 2 powi (e - 52)" by simp
  have "(2::real) powi e = 2 powi (52 + (e - 52))" by (simp add: algebra_simps)
  also have "\<dots> = 2 powi 52 * 2 powi (e - 52)" by (rule power_int_add) simp
  finally show "(2::real) powi e = 2 ^ 52 * 2 powi (e - 52)" by simp
qed

lemma double_round_above_double:
  assumes z: "0 < z" and le: "double_round z \<le> x"
  shows "double_round z \<le> double_round x"
proof (cases "x = 0")
  case True
  then show ?thesis using le by (simp add: double_round_def)
next
  case False
  have "0 \<le> double_round z" using z by (intro double_round_nonneg) simp
  then have x: "0 < x" using le False by linarith
  define ez where "ez = double_exponent z"
  define ex where "ex = double_exponent x"
  define m where "m = round_half_even (z / 2 powi (ez - 52))"
  have s: "double_round z = of_int m * 2 powi (ez - 52)"
    using z by (simp add: double_round_def m_def ez_def)
  have dx: "double_round x = of_int (round_half_even (x / 2 powi (ex - 52))) * 2 powi (ex - 52)"
    using False by (simp add: double_round_def ex_def)
  have gx: "(0::real) < 2 powi (ex - 52)" by simp
  show ?thesis
  proof (cases "ex \<le> ez")
    case True
    define M where "M = m * 2 ^ nat (ez - ex)"
    have "(2::real) powi (ez - 52) = 2 powi (ez - ex) * 2 powi (ex - 52)"
      by (simp flip: power_int_add)
    also have "(2::real) powi (ez - ex) = 2 ^ nat (ez - ex)"
      using True by (simp add: power_int_nonneg_exp)
    finally have sM: "double_round z = of_int M * 2 powi (ex - 52)"
      by (simp add: s M_def)
    have "real_of_int M * 2 powi (ex - 52) \<le> x" using le sM by simp
    then have "real_of_int M \<le> x / 2 powi (ex - 52)" using gx by (simp add: pos_le_divide_eq)
    then have "M \<le> round_half_even (x / 2 powi (ex - 52))" by (rule round_half_even_ge)
    then have "real_of_int M \<le> of_int (round_half_even (x / 2 powi (ex - 52)))" by simp
    then have "real_of_int M * 2 powi (ex - 52)
        \<le> real_of_int (round_half_even (x / 2 powi (ex - 52))) * 2 powi (ex - 52)"
      using gx by (intro mult_right_mono) simp_all
    then show ?thesis by (simp add: sM dx)
  next
    case False
    then have lt: "ez + 1 \<le> ex" by simp
    have gz: "(0::real) < 2 powi (ez - 52)" by simp
    have "\<bar>z\<bar> < 2 powi (ez + 1)" unfolding ez_def using z by (intro double_exponent_upper) simp
    then have "z \<le> 2 powi (ez + 1)" by linarith
    also have "(2::real) powi (ez + 1) = 2 ^ 53 * 2 powi (ez - 52)"
      by (rule two_powi_split)
    finally have "z / 2 powi (ez - 52) \<le> 2 ^ 53" using gz by (simp add: pos_divide_le_eq)
    then have "z / 2 powi (ez - 52) \<le> real_of_int (2 ^ 53)" by simp
    then have "m \<le> 2 ^ 53" unfolding m_def by (rule round_half_even_le)
    then have "real_of_int m \<le> real_of_int (2 ^ 53)" by (simp only: of_int_le_iff)
    then have "real_of_int m \<le> 2 ^ 53" by simp
    then have "real_of_int m * 2 powi (ez - 52) \<le> 2 ^ 53 * 2 powi (ez - 52)"
      using gz by (intro mult_right_mono) simp_all
    also have "\<dots> = 2 powi (ez + 1)"
      by (rule two_powi_split(1) [symmetric])
    also have "\<dots> \<le> 2 powi ex" using lt by (intro power_int_increasing) simp_all
    finally have s_le: "double_round z \<le> 2 powi ex" by (simp add: s)
    have "- 1022 \<le> ez" unfolding ez_def by (rule double_exponent_ge)
    then have "- 1022 < double_exponent x" using lt by (simp add: ex_def)
    then have "2 powi ex \<le> \<bar>x\<bar>" unfolding ex_def using \<open>x \<noteq> 0\<close> by (intro double_exponent_lower)
    then have "2 powi ex \<le> x" using x by simp
    moreover have "(2::real) powi ex = 2 ^ 52 * 2 powi (ex - 52)"
      by (rule two_powi_split)
    ultimately have "real_of_int (2 ^ 52) \<le> x / 2 powi (ex - 52)" using gx by (simp add: pos_le_divide_eq)
    then have "2 ^ 52 \<le> round_half_even (x / 2 powi (ex - 52))" by (rule round_half_even_ge)
    then have "real_of_int (2 ^ 52) \<le> of_int (round_half_even (x / 2 powi (ex - 52)))"
      by (simp only: of_int_le_iff)
    then have "(2::real) ^ 52 \<le> of_int (round_half_even (x / 2 powi (ex - 52)))" by simp
    then have "(2::real) ^ 52 * 2 powi (ex - 52)
        \<le> real_of_int (round_half_even (x / 2 powi (ex - 52))) * 2 powi (ex - 52)"
      using gx by (intro mult_right_mono) simp_all
    then have "2 powi ex \<le> double_round x"
      unfolding dx two_powi_split(2) [of ex, symmetric] .
    then show ?thesis using s_le by linarith
  qed
qed

subsection \<open>The shift and its inverse in double arithmetic\<close>

lemma shift_axis_double_length [simp]: "length (shift_axis_double s j x) = length x"
  by (simp add: shift_axis_double_def Let_def)

lemma unshift_axis_double_length [simp]: "length (unshift_axis_double s j x) = length x"
  by (simp add: unshift_axis_double_def Let_def)

lemma shift_axis_double_nth:
  "j < length x \<Longrightarrow> shift_axis_double s j x ! i =
     (if i = j then (if 1 \<le> double_round (x ! j + s) then double_round (double_round (x ! j + s) - 1)
                     else double_round (x ! j + s))
      else x ! i)"
  by (simp add: shift_axis_double_def Let_def nth_list_update)

lemma unshift_axis_double_nth:
  "j < length x \<Longrightarrow> unshift_axis_double s j x ! i =
     (if i = j then (if double_round (x ! j - s) < 0 then double_round (double_round (x ! j - s) + 1)
                     else double_round (x ! j - s))
      else x ! i)"
  by (simp add: unshift_axis_double_def Let_def nth_list_update)

lemma fold_shift_axis_double_length [simp]:
  "length (fold (shift_axis_double s) js x) = length x"
  by (induction js arbitrary: x) simp_all

lemma fold_unshift_axis_double_length [simp]:
  "length (fold (unshift_axis_double s) js x) = length x"
  by (induction js arbitrary: x) simp_all

lemma fold_shift_axis_double_nth:
  "distinct js \<Longrightarrow> list_all (\<lambda>j. j < length x) js \<Longrightarrow>
   fold (shift_axis_double s) js x ! i =
     (if i \<in> set js
      then (if 1 \<le> double_round (x ! i + s) then double_round (double_round (x ! i + s) - 1)
            else double_round (x ! i + s))
      else x ! i)"
proof (induction js arbitrary: x)
  case Nil
  then show ?case by simp
next
  case (Cons j js)
  have "fold (shift_axis_double s) js (shift_axis_double s j x) ! i =
     (if i \<in> set js
      then (if 1 \<le> double_round (shift_axis_double s j x ! i + s)
            then double_round (double_round (shift_axis_double s j x ! i + s) - 1)
            else double_round (shift_axis_double s j x ! i + s))
      else shift_axis_double s j x ! i)"
    using Cons.prems by (intro Cons.IH) simp_all
  then show ?case using Cons.prems by (auto simp: shift_axis_double_nth)
qed

lemma fold_unshift_axis_double_nth:
  "distinct js \<Longrightarrow> list_all (\<lambda>j. j < length x) js \<Longrightarrow>
   fold (unshift_axis_double s) js x ! i =
     (if i \<in> set js
      then (if double_round (x ! i - s) < 0 then double_round (double_round (x ! i - s) + 1)
            else double_round (x ! i - s))
      else x ! i)"
proof (induction js arbitrary: x)
  case Nil
  then show ?case by simp
next
  case (Cons j js)
  have "fold (unshift_axis_double s) js (unshift_axis_double s j x) ! i =
     (if i \<in> set js
      then (if double_round (unshift_axis_double s j x ! i - s) < 0
            then double_round (double_round (unshift_axis_double s j x ! i - s) + 1)
            else double_round (unshift_axis_double s j x ! i - s))
      else unshift_axis_double s j x ! i)"
    using Cons.prems by (intro Cons.IH) simp_all
  then show ?case using Cons.prems by (auto simp: unshift_axis_double_nth)
qed

lemma shift_particle_double_nth:
  assumes "length (pos p) = N" and "j < N"
  shows "pos (shift_particle_double N s p) ! j =
     (if 1 \<le> j \<and> 1 \<le> double_round (pos p ! j + s)
      then double_round (double_round (pos p ! j + s) - 1)
      else double_round (pos p ! j + s))"
proof -
  let ?x = "(pos p)[0 := double_round (pos p ! 0 + s)]"
  have "list_all (\<lambda>j. j < length ?x) [1..<N]"
    using assms by (simp add: list_all_iff)
  then have "fold (shift_axis_double s) [1..<N] ?x ! j =
     (if j \<in> set [1..<N]
      then (if 1 \<le> double_round (?x ! j + s) then double_round (double_round (?x ! j + s) - 1)
            else double_round (?x ! j + s))
      else ?x ! j)"
    by (intro fold_shift_axis_double_nth) simp_all
  then show ?thesis using assms by (cases "j = 0") (auto simp: shift_particle_double_def)
qed

lemma unshift_particle_double_nth:
  assumes "length (pos p) = N" and "j < N"
  shows "pos (unshift_particle_double N s p) ! j =
     (if 1 \<le> j \<and> double_round (pos p ! j - s) < 0
      then double_round (double_round (pos p ! j - s) + 1)
      else double_round (pos p ! j - s))"
proof -
  let ?x = "(pos p)[0 := double_round (pos p ! 0 - s)]"
  have "list_all (\<lambda>j. j < length ?x) [1..<N]"
    using assms by (simp add: list_all_iff)
  then have "fold (unshift_axis_double s) [1..<N] ?x ! j =
     (if j \<in> set [1..<N]
      then (if double_round (?x ! j - s) < 0 then double_round (double_round (?x ! j - s) + 1)
            else double_round (?x ! j - s))
      else ?x ! j)"
    by (intro fold_unshift_axis_double_nth) simp_all
  then show ?thesis using assms by (cases "j = 0") (auto simp: unshift_particle_double_def)
qed

lemma shift_particle_double_length [simp]:
  "length (pos (shift_particle_double N s p)) = length (pos p)"
  "length (pos (unshift_particle_double N s p)) = length (pos p)"
  by (simp_all add: shift_particle_double_def unshift_particle_double_def)

lemma restore_first_axis:
  assumes "0 \<le> p" "p < 1" "\<bar>s\<bar> \<le> 3 / 4"
  shows "\<bar>double_round (double_round (p + s) - s) - p\<bar> \<le> 1 / 2 ^ 52"
proof -
  define u :: real where "u = 1 / 2 ^ 53"
  have u: "0 < u" "u \<le> 1 / 100" "2 * u = 1 / 2 ^ 52" by (simp_all add: u_def)
  define a where "a = double_round (p + s)"
  have "\<bar>p + s\<bar> < 2" using assms by linarith
  then have ea: "\<bar>a - (p + s)\<bar> \<le> u" unfolding a_def u_def by (rule double_round_error)
  have "\<bar>a - s\<bar> < 2" using ea assms u(1,2) by linarith
  then have eb: "\<bar>double_round (a - s) - (a - s)\<bar> \<le> u"
    unfolding u_def by (rule double_round_error)
  have "\<bar>double_round (a - s) - p\<bar> \<le> 2 * u" using ea eb by linarith
  then show ?thesis unfolding a_def u(3) .
qed

lemma shift_double_range:
  assumes "1 \<le> Ngrid"
  shows "0 \<le> shift_double Ngrid \<and> shift_double Ngrid \<le> 3 / 4"
proof -
  have z: "0 < 1 / real_of_int (2 * Ngrid)" "1 / real_of_int (2 * Ngrid) \<le> 1 / 2"
    using assms by (simp_all add: field_simps)
  then have "\<bar>1 / real_of_int (2 * Ngrid)\<bar> < 2" by linarith
  then have "\<bar>shift_double Ngrid - 1 / real_of_int (2 * Ngrid)\<bar> \<le> 1 / 2 ^ 53"
    unfolding shift_double_def by (rule double_round_error)
  moreover have "(1::real) / 2 ^ 53 \<le> 1 / 4" by simp
  ultimately have "shift_double Ngrid \<le> 3 / 4" using z by linarith
  moreover have "0 \<le> shift_double Ngrid"
    unfolding shift_double_def using z by (intro double_round_nonneg) linarith
  ultimately show ?thesis by simp
qed

lemma restore_wrapped_axis:
  assumes "0 \<le> p" "p < 1" "0 < z" "double_round z \<le> 3 / 4"
  defines "s \<equiv> double_round z"
  defines "a \<equiv> double_round (p + s)"
  defines "a' \<equiv> (if 1 \<le> a then double_round (a - 1) else a)"
  defines "b \<equiv> double_round (a' - s)"
  defines "r \<equiv> (if b < 0 then double_round (b + 1) else b)"
  shows "\<bar>r - p\<bar> \<le> 1 / 2 ^ 51 \<or> (1 - 1 / 2 ^ 51 \<le> p \<and> \<bar>r - (p - 1)\<bar> \<le> 1 / 2 ^ 51)"
proof -
  define u :: real where "u = 1 / 2 ^ 53"
  have u: "0 < u" "u \<le> 1 / 100" "4 * u = 1 / 2 ^ 51" by (simp_all add: u_def)
  have s: "0 \<le> s" "s \<le> 3 / 4"
    using assms(3,4) double_round_nonneg [of z] by (simp_all add: s_def)
  have "\<bar>p + s\<bar> < 2" using assms(1,2) s by linarith
  then have ea: "\<bar>a - (p + s)\<bar> \<le> u" unfolding a_def u_def by (rule double_round_error)
  have as: "s \<le> a"
    unfolding a_def s_def using assms(1,3) by (intro double_round_above_double) (simp_all add: s_def)
  show ?thesis
  proof (cases "1 \<le> a")
    case False
    then have a': "a' = a" by (simp add: a'_def)
    have "\<bar>a - s\<bar> < 2" using ea assms(1,2) s u(1,2) by linarith
    then have eb: "\<bar>b - (a - s)\<bar> \<le> u" unfolding b_def a' u_def by (rule double_round_error)
    have "0 \<le> b" unfolding b_def a' using as by (intro double_round_nonneg) simp
    then have "r = b" by (simp add: r_def)
    then have "\<bar>r - p\<bar> \<le> 4 * u" using ea eb u(1) by linarith
    then show ?thesis unfolding u(3) by simp
  next
    case True
    then have a': "a' = double_round (a - 1)" by (simp add: a'_def)
    have "\<bar>a - 1\<bar> < 2" using ea assms(1,2) s u(1,2) by linarith
    then have ea': "\<bar>a' - (a - 1)\<bar> \<le> u" unfolding a' u_def by (rule double_round_error)
    have "\<bar>a' - s\<bar> < 2" using ea ea' assms(1,2) s u(1,2) by linarith
    then have eb: "\<bar>b - (a' - s)\<bar> \<le> u" unfolding b_def u_def by (rule double_round_error)
    show ?thesis
    proof (cases "b < 0")
      case True
      have "\<bar>b + 1\<bar> < 2" using ea ea' eb assms(1,2) s u(1,2) by linarith
      then have "\<bar>double_round (b + 1) - (b + 1)\<bar> \<le> u"
        unfolding u_def by (rule double_round_error)
      then have "\<bar>r - (b + 1)\<bar> \<le> u" using True by (simp add: r_def)
      then have "\<bar>r - p\<bar> \<le> 4 * u" using ea ea' eb by linarith
      then show ?thesis unfolding u(3) by simp
    next
      case False
      then have "r = b" by (simp add: r_def)
      then have "1 - 4 * u \<le> p \<and> \<bar>r - (p - 1)\<bar> \<le> 4 * u"
        using False ea ea' eb u(1) by linarith
      then show ?thesis unfolding u(3) by simp
    qed
  qed
qed

lemma interlacing_particles_double_nth:
  assumes "i < length part" and "length (pos (part ! i)) = N" and "j < N"
  shows "pos (interlacing_particles_double N Ngrid part ! i) ! j =
     (let s = shift_double Ngrid;
          a = double_round (pos (part ! i) ! j + s);
          a' = (if 1 \<le> j \<and> 1 \<le> a then double_round (a - 1) else a);
          b = double_round (a' - s)
      in if 1 \<le> j \<and> b < 0 then double_round (b + 1) else b)"
  using assms
  by (simp add: interlacing_particles_double_def unshift_particle_double_nth
      shift_particle_double_nth Let_def)

lemma interlacing_particles:
  "fst (compute_power_spectrum_interlacing ext N Ngrid part NumPartTotal pofk_in
          density_assignment) = interlacing_particles_double N Ngrid part"
  by (simp add: compute_power_spectrum_interlacing_def Let_def)

text \<open>The two example particles, step by step.\<close>

lemma shift_double_2: "shift_double 2 = 1 / 4"
  using double_round_eval [of "- 2" "1 / 4"]
  by (simp add: shift_double_def round_half_even_def)

lemma nine_tenths_steps:
  "double_round (nine_tenths + 1 / 4) = 2589569785738035 / 2 ^ 51"
  "double_round (2589569785738035 / 2 ^ 51 - 1 / 4) = nine_tenths - 1 / 2 ^ 53"
  "double_round (2589569785738035 / 2 ^ 51 - 1) = 337769972052787 / 2 ^ 51"
  "double_round (337769972052787 / 2 ^ 51 - 1 / 4) = - 225179981368525 / 2 ^ 51"
  "double_round (- 225179981368525 / 2 ^ 51 + 1) = nine_tenths - 1 / 2 ^ 53"
  using double_round_eval [of 0 "nine_tenths + 1 / 4"]
    double_round_eval [of "- 1" "2589569785738035 / 2 ^ 51 - 1 / 4"]
    double_round_eval [of "- 3" "2589569785738035 / 2 ^ 51 - 1"]
    double_round_eval [of "- 4" "337769972052787 / 2 ^ 51 - 1 / 4"]
    double_round_eval [of "- 1" "- 225179981368525 / 2 ^ 51 + 1"]
  by (simp_all add: nine_tenths_def round_half_even_def)

lemma near_one_steps:
  "double_round (near_one + 1 / 4) = 5 / 4"
  "double_round (5 / 4 - 1 / 4) = 1"
  "double_round (5 / 4 - 1) = 1 / 4"
  "double_round (1 / 4 - 1 / 4) = 0"
  using double_round_eval [of 0 "near_one + 1 / 4"]
    double_round_eval [of 0 "5 / 4 - 1 / 4"]
    double_round_eval [of "- 2" "5 / 4 - 1"]
  by (simp_all add: near_one_def round_half_even_def double_round_def)

lemma double_part_restored:
  "pos (interlacing_particles_double 2 2 double_part ! 0) ! 0 = nine_tenths - 1 / 2 ^ 53"
  "pos (interlacing_particles_double 2 2 double_part ! 0) ! 1 = nine_tenths - 1 / 2 ^ 53"
  "pos (interlacing_particles_double 2 2 double_part ! 1) ! 0 = 1"
  "pos (interlacing_particles_double 2 2 double_part ! 1) ! 1 = 0"
proof -
  have n: "(1::real) \<le> 2589569785738035 / 2 ^ 51" "(- 225179981368525::real) / 2 ^ 51 < 0"
    "(1::real) \<le> 5 / 4" "\<not> (0::real) < 0" "\<not> (1::nat) \<le> 0" "(1::nat) \<le> 1"
    by simp_all
  have p: "pos (double_part ! 0) ! 0 = nine_tenths" "pos (double_part ! 0) ! 1 = nine_tenths"
    "pos (double_part ! 1) ! 0 = near_one" "pos (double_part ! 1) ! 1 = near_one"
    by (simp_all add: double_part_def)
  have l: "0 < length double_part" "1 < length double_part"
    "length (pos (double_part ! 0)) = 2" "length (pos (double_part ! 1)) = 2"
    "(0::nat) < 2" "(1::nat) < 2"
    by (simp_all add: double_part_def)
  show "pos (interlacing_particles_double 2 2 double_part ! 0) ! 0 = nine_tenths - 1 / 2 ^ 53"
    unfolding interlacing_particles_double_nth [OF l(1) l(3) l(5)]
    by (simp only: Let_def p shift_double_2 nine_tenths_steps n simp_thms if_True if_False)
  show "pos (interlacing_particles_double 2 2 double_part ! 0) ! 1 = nine_tenths - 1 / 2 ^ 53"
    unfolding interlacing_particles_double_nth [OF l(1) l(3) l(6)]
    by (simp only: Let_def p shift_double_2 nine_tenths_steps n simp_thms if_True if_False)
  show "pos (interlacing_particles_double 2 2 double_part ! 1) ! 0 = 1"
    unfolding interlacing_particles_double_nth [OF l(2) l(4) l(5)]
    by (simp only: Let_def p shift_double_2 near_one_steps n simp_thms if_True if_False)
  show "pos (interlacing_particles_double 2 2 double_part ! 1) ! 1 = 0"
    unfolding interlacing_particles_double_nth [OF l(2) l(4) l(6)]
    by (simp only: Let_def p shift_double_2 near_one_steps n simp_thms if_True if_False)
qed

text \<open>
  C9, as stated, fails. For the \<^verbatim>\<open>double\<close> nearest to 0.9 and \<open>Ngrid = 2\<close> the sum
  \<open>0.9 + 0.25\<close> is rounded to even, and both coordinates come back one unit in the last
  place lower. The largest \<^verbatim>\<open>double\<close> below 1 comes back as 1 on the first axis, and as 0
  on the second, where the sum is wrapped at 1 and the difference not wrapped at 0.
\<close>

theorem C9_double_rounding_counterexample:
  "list_all (in_unit_box 2) double_part \<and>
   pos (double_part ! 0) = [nine_tenths, nine_tenths] \<and>
   pos (double_part ! 1) = [near_one, near_one] \<and>
   pos (fst (compute_power_spectrum_interlacing ngp_externals 2 2 double_part 2
               (linear_binning 2 0 16) ''NGP'') ! 0) ! 0 = nine_tenths - 1 / 2 ^ 53 \<and>
   pos (fst (compute_power_spectrum_interlacing ngp_externals 2 2 double_part 2
               (linear_binning 2 0 16) ''NGP'') ! 0) ! 1 = nine_tenths - 1 / 2 ^ 53 \<and>
   pos (fst (compute_power_spectrum_interlacing ngp_externals 2 2 double_part 2
               (linear_binning 2 0 16) ''NGP'') ! 1) ! 0 = 1 \<and>
   pos (fst (compute_power_spectrum_interlacing ngp_externals 2 2 double_part 2
               (linear_binning 2 0 16) ''NGP'') ! 1) ! 1 = 0 \<and>
   fst (compute_power_spectrum_interlacing ngp_externals 2 2 double_part 2
          (linear_binning 2 0 16) ''NGP'') \<noteq> double_part"
proof -
  have b: "list_all (in_unit_box 2) double_part"
    by (simp add: double_part_def in_unit_box_def upt_rec nine_tenths_def near_one_def)
  have p: "pos (double_part ! 0) = [nine_tenths, nine_tenths]"
    "pos (double_part ! 1) = [near_one, near_one]"
    by (simp_all add: double_part_def)
  have "pos (interlacing_particles_double 2 2 double_part ! 1) ! 1 \<noteq> pos (double_part ! 1) ! 1"
    unfolding double_part_restored p by (simp add: near_one_def)
  then have "interlacing_particles_double 2 2 double_part \<noteq> double_part" by auto
  with b p double_part_restored show ?thesis by (simp add: interlacing_particles)
qed

text \<open>
  C9, amended. For particles in the unit box and \<open>1 \<le> Ngrid < 2\<^sup>3\<^sup>0\<close>, the particles that
  \<^verbatim>\<open>compute_power_spectrum_interlacing\<close> leaves to its caller keep their number, their
  velocities and their number of coordinates, and every coordinate is restored up to
  rounding: on the first axis it differs from its
  value on entry by at most \<open>2\<^sup>-\<^sup>5\<^sup>2\<close> (two roundings); on the wrapped axes it differs from
  its value on entry by at most \<open>2\<^sup>-\<^sup>5\<^sup>1\<close> (four roundings), or it was within \<open>2\<^sup>-\<^sup>5\<^sup>1\<close> of 1
  on entry and comes back within \<open>2\<^sup>-\<^sup>5\<^sup>1\<close> of its periodic image, one period lower.
\<close>

theorem C9_interlacing_restores_positions:
  assumes box: "list_all (in_unit_box N) part" and grid: "1 \<le> Ngrid" "Ngrid < 2 ^ 30"
      and i: "i < length part" and j: "j < N"
  shows "length (fst (compute_power_spectrum_interlacing ext N Ngrid part NumPartTotal pofk_in
            density_assignment)) = length part \<and>
    length (pos (fst (compute_power_spectrum_interlacing ext N Ngrid part NumPartTotal pofk_in
            density_assignment) ! i)) = N \<and>
    vel (fst (compute_power_spectrum_interlacing ext N Ngrid part NumPartTotal pofk_in
            density_assignment) ! i) = vel (part ! i) \<and>
    (j = 0 \<longrightarrow>
       \<bar>pos (fst (compute_power_spectrum_interlacing ext N Ngrid part NumPartTotal pofk_in
            density_assignment) ! i) ! j - pos (part ! i) ! j\<bar>
         \<le> 1 / 2 ^ 52) \<and>
    (1 \<le> j \<longrightarrow>
       \<bar>pos (fst (compute_power_spectrum_interlacing ext N Ngrid part NumPartTotal pofk_in
            density_assignment) ! i) ! j - pos (part ! i) ! j\<bar>
         \<le> 1 / 2 ^ 51 \<or>
       1 - 1 / 2 ^ 51 \<le> pos (part ! i) ! j \<and>
       \<bar>pos (fst (compute_power_spectrum_interlacing ext N Ngrid part NumPartTotal pofk_in
            density_assignment) ! i) ! j - (pos (part ! i) ! j - 1)\<bar>
         \<le> 1 / 2 ^ 51)"
proof -
  have bi: "in_unit_box N (part ! i)" using box i by (simp add: list_all_length)
  have len: "length (pos (part ! i)) = N" using bi by (simp add: in_unit_box_def)
  have p: "0 \<le> pos (part ! i) ! j" "pos (part ! i) ! j < 1"
    using bi j by (simp_all add: in_unit_box_def list_all_iff)
  note r = interlacing_particles_double_nth [OF i len j, of Ngrid]
  have z: "0 < 1 / real_of_int (2 * Ngrid)" using grid(1) by simp
  note sr = shift_double_range [OF grid(1)]
  have l: "length (interlacing_particles_double N Ngrid part) = length part"
    by (simp add: interlacing_particles_double_def)
  have n: "interlacing_particles_double N Ngrid part ! i =
      unshift_particle_double N (shift_double Ngrid)
        (shift_particle_double N (shift_double Ngrid) (part ! i))"
    using i by (simp add: interlacing_particles_double_def)
  have lp: "length (pos (interlacing_particles_double N Ngrid part ! i)) = N"
    by (simp add: n len)
  have v: "vel (interlacing_particles_double N Ngrid part ! i) = vel (part ! i)"
    by (simp add: n unshift_particle_double_def shift_particle_double_def)
  have first: "\<bar>pos (interlacing_particles_double N Ngrid part ! i) ! j - pos (part ! i) ! j\<bar>
         \<le> 1 / 2 ^ 52" if "j = 0"
  proof -
    have "\<bar>shift_double Ngrid\<bar> \<le> 3 / 4" using sr by simp
    note b = restore_first_axis [OF p this]
    have "pos (interlacing_particles_double N Ngrid part ! i) ! j =
        double_round (double_round (pos (part ! i) ! j + shift_double Ngrid) - shift_double Ngrid)"
      unfolding r Let_def using that by simp
    then show ?thesis using b by (simp only:)
  qed
  have rest: "\<bar>pos (interlacing_particles_double N Ngrid part ! i) ! j - pos (part ! i) ! j\<bar>
         \<le> 1 / 2 ^ 51 \<or>
       1 - 1 / 2 ^ 51 \<le> pos (part ! i) ! j \<and>
       \<bar>pos (interlacing_particles_double N Ngrid part ! i) ! j - (pos (part ! i) ! j - 1)\<bar>
         \<le> 1 / 2 ^ 51" if "1 \<le> j"
  proof -
    have "double_round (1 / real_of_int (2 * Ngrid)) \<le> 3 / 4"
      using sr by (simp add: shift_double_def)
    note b = restore_wrapped_axis [OF p z this, folded shift_double_def]
    have "pos (interlacing_particles_double N Ngrid part ! i) ! j =
        (if double_round
              ((if 1 \<le> double_round (pos (part ! i) ! j + shift_double Ngrid)
                then double_round (double_round (pos (part ! i) ! j + shift_double Ngrid) - 1)
                else double_round (pos (part ! i) ! j + shift_double Ngrid)) -
               shift_double Ngrid) < 0
         then double_round
                (double_round
                   ((if 1 \<le> double_round (pos (part ! i) ! j + shift_double Ngrid)
                     then double_round (double_round (pos (part ! i) ! j + shift_double Ngrid) - 1)
                     else double_round (pos (part ! i) ! j + shift_double Ngrid)) -
                    shift_double Ngrid) + 1)
         else double_round
                ((if 1 \<le> double_round (pos (part ! i) ! j + shift_double Ngrid)
                  then double_round (double_round (pos (part ! i) ! j + shift_double Ngrid) - 1)
                  else double_round (pos (part ! i) ! j + shift_double Ngrid)) -
                 shift_double Ngrid))"
      unfolding r Let_def using that by simp
    then show ?thesis using b by (simp only:)
  qed
  show ?thesis unfolding interlacing_particles using l lp v first rest by blast
qed

theorem C9_interlacing_restores_positions_witness:
  "list_all (in_unit_box 2) double_part \<and> (1::int) \<le> 2 \<and> (2::int) < 2 ^ 30 \<and>
   1 < length double_part \<and> (1::nat) < 2 \<and>
   pos (double_part ! 1) ! 1 = near_one \<and>
   pos (fst (compute_power_spectrum_interlacing ngp_externals 2 2 double_part 2
               (linear_binning 2 0 16) ''NGP'') ! 1) ! 1 = 0 \<and>
   1 - 1 / 2 ^ 51 \<le> near_one \<and> \<bar>0 - (near_one - 1)\<bar> \<le> 1 / 2 ^ 51"
proof -
  have b: "list_all (in_unit_box 2) double_part"
    by (simp add: double_part_def in_unit_box_def upt_rec nine_tenths_def near_one_def)
  have h: "(1::int) \<le> 2" "(2::int) < 2 ^ 30" "1 < length double_part" "(1::nat) < 2"
    by (simp_all add: double_part_def)
  have p: "pos (double_part ! 1) ! 1 = near_one" by (simp add: double_part_def)
  have n: "\<not> \<bar>0 - near_one\<bar> \<le> 1 / 2 ^ 51" by (simp add: near_one_def)
  have r: "pos (fst (compute_power_spectrum_interlacing ngp_externals 2 2 double_part 2
               (linear_binning 2 0 16) ''NGP'') ! 1) ! 1 = 0"
    unfolding interlacing_particles by (rule double_part_restored)
  from C9_interlacing_restores_positions
    [OF b h, of ngp_externals 2 "linear_binning 2 0 16" "''NGP''"] n
  have "1 - 1 / 2 ^ 51 \<le> near_one \<and> \<bar>0 - (near_one - 1)\<bar> \<le> 1 / 2 ^ 51"
    unfolding r p by simp
  with b h p r show ?thesis by simp
qed

subsection \<open>The mean of the two interlaced grids\<close>

lemma interlace_cell_frame [simp]:
  "wavevector (interlace_cell s g2 g x) = wavevector g"
  "ndim (interlace_cell s g2 g x) = ndim g"
  "nmesh (interlace_cell s g2 g x) = nmesh g"
  "local_nx (interlace_cell s g2 g x) = local_nx g"
  "cdelta (interlace_cell s g2 g x) = (cdelta g)(x := interlaced_amplitude s g2 g x)"
  by (simp_all add: interlace_cell_def Let_def interlaced_amplitude_def)

lemma interlace_fold_frame [simp]:
  "wavevector (fold (\<lambda>x g. interlace_cell s g2 g x) xs g) = wavevector g"
  "ndim (fold (\<lambda>x g. interlace_cell s g2 g x) xs g) = ndim g"
  by (induction xs arbitrary: g; simp)+

lemma interlaced_amplitude_cong:
  "wavevector g' = wavevector g \<Longrightarrow> ndim g' = ndim g \<Longrightarrow> cdelta g' i = cdelta g i \<Longrightarrow>
   interlaced_amplitude s g2 g' i = interlaced_amplitude s g2 g i"
  by (simp add: interlaced_amplitude_def ksum_of_def)

lemma interlace_fold_cdelta:
  "distinct xs \<Longrightarrow>
   cdelta (fold (\<lambda>x g. interlace_cell s g2 g x) xs g) i =
     (if i \<in> set xs then interlaced_amplitude s g2 g i else cdelta g i)"
proof (induction xs arbitrary: g)
  case Nil
  then show ?case by simp
next
  case (Cons x xs)
  have "cdelta (fold (\<lambda>x g. interlace_cell s g2 g x) xs (interlace_cell s g2 g x)) i =
     (if i \<in> set xs then interlaced_amplitude s g2 (interlace_cell s g2 g x) i
      else cdelta (interlace_cell s g2 g x) i)"
    using Cons.prems by (intro Cons.IH) simp
  moreover have "interlaced_amplitude s g2 (interlace_cell s g2 g x) i
                   = interlaced_amplitude s g2 g i" if "i \<in> set xs"
    using Cons.prems that by (intro interlaced_amplitude_cong) auto
  ultimately show ?case by auto
qed

lemma interlace_mean_cdelta:
  "ind < NmeshTotLocal g \<Longrightarrow>
   cdelta (interlace_mean s g2 g) ind = interlaced_amplitude s g2 g ind"
  by (simp add: interlace_mean_def fourier_range_def interlace_fold_cdelta)

text \<open>The two grids of the example particles.\<close>

lemma dft4_cdelta:
  "cdelta (dft4 g) ind =
     (cdelta g 0 + (- 1) ^ (ind mod 2) * cdelta g (Suc 0) + (- 1) ^ (ind div 2) * cdelta g 2
      + (- 1) ^ (ind div 2 + ind mod 2) * cdelta g 3) / 4"
  by (simp add: dft4_def)

lemma dft4_frame [simp]:
  "nmesh (dft4 g) = nmesh g" "local_nx (dft4 g) = local_nx g" "ndim (dft4 g) = ndim g"
  "wavevector (dft4 g) = wavevector g"
  by (simp_all add: dft4_def)

lemma ngp_scatter_frame [simp]:
  "nmesh (ngp_scatter p n g m) = nmesh g" "local_nx (ngp_scatter p n g m) = local_nx g"
  "ndim (ngp_scatter p n g m) = ndim g" "wavevector (ngp_scatter p n g m) = wavevector g"
  by (simp_all add: ngp_scatter_def)

lemma pair_shifted:
  "map pos (interlacing_shifted 2 2 pair_part) = [[7 / 20, 7 / 20], [7 / 20, 3 / 20]]"
  by (simp add: interlacing_shifted_def pair_part_def shift_particle_def shift_of_def
        shift_axis_def upt_rec)

lemma pair_cells:
  "map ngp_cell pair_part = [0, 1]"
  "map ngp_cell (interlacing_shifted 2 2 pair_part) = [0, 0]"
  by (simp_all add: interlacing_shifted_def pair_part_def shift_particle_def shift_of_def
        shift_axis_def upt_rec ngp_cell_def)

lemma ngp_scatter_cdelta:
  "cdelta (ngp_scatter part n g m) c =
     of_real (real (length (filter (\<lambda>x. x = c) (map ngp_cell part))) * 4 / real n - 1)"
  by (simp add: ngp_scatter_def filter_map comp_def)

lemma pair_grids:
  "cdelta (dft4 (ngp_scatter pair_part 2 rank0_grid m)) 2 = 1"
  "cdelta (dft4 (ngp_scatter (interlacing_shifted 2 2 pair_part) 2 rank0_grid m)) 2 = 1"
  by (simp_all add: dft4_cdelta ngp_scatter_cdelta pair_cells)

text \<open>
  C5. \<^verbatim>\<open>compute_power_spectrum_interlacing\<close> scatters the particles onto a new grid and, a
  second time, the shifted particles onto a second new grid, and transforms both;
  coordinate \<open>j\<close> of a shifted particle is its coordinate plus \<open>1/(2 Ngrid)\<close>, brought back
  into the periodic box by \<open>-1\<close> when it reaches 1 on an axis after the first. After both
  transforms the amplitude of the first grid at every owned index is
  \<open>(G1(k) + exp(i (\<Sum>j. k\<^sub>j) / (2 Ngrid)) G2(k)) / 2\<close>; this one grid is deconvolved once
  and binned, and the shot noise is subtracted.
\<close>

theorem C5_interlacing_mean:
  "snd (compute_power_spectrum_interlacing ext N Ngrid part NumPartTotal pofk_in method) =
     (case bin_up_power_spectrum
             (deconvolve_window_function_fourier ext
                (interlace_mean (shift_of Ngrid)
                   (fftw_r2c ext
                      (particles_to_grid ext (interlacing_shifted N Ngrid part) NumPartTotal
                         (new_grid ext Ngrid (fst (extra_slices ext method))
                            (snd (extra_slices ext method) + 1))
                         method))
                   (fftw_r2c ext
                      (particles_to_grid ext part NumPartTotal
                         (new_grid ext Ngrid (fst (extra_slices ext method))
                            (snd (extra_slices ext method) + 1))
                         method)))
                method)
             pofk_in of
        Inl e \<Rightarrow> Inl e
      | Inr b \<Rightarrow> Inr (subtract_shotnoise NumPartTotal b)) \<and>
   length (interlacing_shifted N Ngrid part) = length part \<and>
   (i < length part \<and> length (pos (part ! i)) = N \<and> j < N \<longrightarrow>
      pos (interlacing_shifted N Ngrid part ! i) ! j =
        (if 1 \<le> j \<and> 1 \<le> pos (part ! i) ! j + 1 / real_of_int (2 * Ngrid)
         then pos (part ! i) ! j + 1 / real_of_int (2 * Ngrid) - 1
         else pos (part ! i) ! j + 1 / real_of_int (2 * Ngrid))) \<and>
   (ind < NmeshTotLocal g1 \<longrightarrow>
      cdelta (interlace_mean (shift_of Ngrid) g2 g1) ind =
        (cdelta g1 ind +
         exp (\<i> * of_real (ksum_of g1 ind / real_of_int (2 * Ngrid))) * cdelta g2 ind) / 2) \<and>
   ksum_of g1 ind = (\<Sum>idim\<leftarrow>[0..<ndim g1]. wavevector g1 ind ! idim)"
proof (intro conjI impI)
  show "snd (compute_power_spectrum_interlacing ext N Ngrid part NumPartTotal pofk_in method) =
     (case bin_up_power_spectrum
             (deconvolve_window_function_fourier ext
                (interlace_mean (shift_of Ngrid)
                   (fftw_r2c ext
                      (particles_to_grid ext (interlacing_shifted N Ngrid part) NumPartTotal
                         (new_grid ext Ngrid (fst (extra_slices ext method))
                            (snd (extra_slices ext method) + 1))
                         method))
                   (fftw_r2c ext
                      (particles_to_grid ext part NumPartTotal
                         (new_grid ext Ngrid (fst (extra_slices ext method))
                            (snd (extra_slices ext method) + 1))
                         method)))
                method)
             pofk_in of
        Inl e \<Rightarrow> Inl e
      | Inr b \<Rightarrow> Inr (subtract_shotnoise NumPartTotal b))"
    by (simp add: compute_power_spectrum_interlacing_def interlacing_density_k_def Let_def)
next
  show "length (interlacing_shifted N Ngrid part) = length part"
    by (simp add: interlacing_shifted_def)
next
  assume "i < length part \<and> length (pos (part ! i)) = N \<and> j < N"
  then show "pos (interlacing_shifted N Ngrid part ! i) ! j =
        (if 1 \<le> j \<and> 1 \<le> pos (part ! i) ! j + 1 / real_of_int (2 * Ngrid)
         then pos (part ! i) ! j + 1 / real_of_int (2 * Ngrid) - 1
         else pos (part ! i) ! j + 1 / real_of_int (2 * Ngrid))"
    by (simp add: interlacing_shifted_def shift_particle_nth shift_of_def)
next
  assume "ind < NmeshTotLocal g1"
  then have "cdelta (interlace_mean (shift_of Ngrid) g2 g1) ind =
      interlaced_amplitude (shift_of Ngrid) g2 g1 ind"
    by (rule interlace_mean_cdelta)
  also have "\<dots> = (cdelta g1 ind +
         exp (\<i> * of_real (ksum_of g1 ind / real_of_int (2 * Ngrid))) * cdelta g2 ind) / 2"
    by (simp add: interlaced_amplitude_def shift_of_def mult.assoc)
  finally show "cdelta (interlace_mean (shift_of Ngrid) g2 g1) ind =
        (cdelta g1 ind +
         exp (\<i> * of_real (ksum_of g1 ind / real_of_int (2 * Ngrid))) * cdelta g2 ind) / 2" .
next
  show "ksum_of g1 ind = (\<Sum>idim\<leftarrow>[0..<ndim g1]. wavevector g1 ind ! idim)"
    by (simp add: ksum_of_def)
qed

theorem C5_interlacing_mean_witness:
  "1 < length pair_part \<and> length (pos (pair_part ! 1)) = 2 \<and> (1::nat) < 2 \<and>
   2 < NmeshTotLocal (dft4 (ngp_scatter pair_part 2 rank0_grid ''NGP'')) \<and>
   pos (interlacing_shifted 2 2 pair_part ! 1) ! 1 = 9 / 10 + 1 / 4 - 1 \<and>
   cdelta (dft4 (ngp_scatter pair_part 2 rank0_grid ''NGP'')) 2 = 1 \<and>
   cdelta (dft4 (ngp_scatter (interlacing_shifted 2 2 pair_part) 2 rank0_grid ''NGP'')) 2 = 1 \<and>
   cdelta (interlace_mean (shift_of 2)
             (dft4 (ngp_scatter (interlacing_shifted 2 2 pair_part) 2 rank0_grid ''NGP''))
             (dft4 (ngp_scatter pair_part 2 rank0_grid ''NGP''))) 2 =
     (1 + exp (\<i> * of_real (2 * pi / 4)) * 1) / 2 \<and>
   snd (compute_power_spectrum_interlacing ngp_externals 2 2 pair_part 2 (linear_binning 2 0 16)
          ''NGP'') =
     (case bin_up_power_spectrum
             (interlace_mean (shift_of 2)
                (dft4 (ngp_scatter (interlacing_shifted 2 2 pair_part) 2 rank0_grid ''NGP''))
                (dft4 (ngp_scatter pair_part 2 rank0_grid ''NGP'')))
             (linear_binning 2 0 16) of
        Inl e \<Rightarrow> Inl e
      | Inr b \<Rightarrow> Inr (subtract_shotnoise 2 b))"
proof -
  have h: "1 < length pair_part \<and> length (pos (pair_part ! 1)) = 2 \<and> (1::nat) < 2"
    by (simp add: pair_part_def)
  have n: "2 < NmeshTotLocal (dft4 (ngp_scatter pair_part 2 rank0_grid ''NGP''))"
    by (simp add: NmeshTotLocal_def rank0_grid_def)
  have k: "(\<Sum>idim\<leftarrow>[0..<ndim (dft4 (ngp_scatter pair_part 2 rank0_grid ''NGP''))].
              wavevector (dft4 (ngp_scatter pair_part 2 rank0_grid ''NGP'')) 2 ! idim) = 2 * pi"
    by (simp add: rank0_grid_def spec_wavevector_def spec_fourier_coord_def upt_rec)
  have e: "new_grid ngp_externals 2 (fst (extra_slices ngp_externals ''NGP''))
             (snd (extra_slices ngp_externals ''NGP'') + 1) = rank0_grid"
    "fftw_r2c ngp_externals = dft4" "particles_to_grid ngp_externals = ngp_scatter"
    "deconvolve_window_function_fourier ngp_externals = (\<lambda>g method. g)"
    by (simp_all add: ngp_externals_def)
  note t = C5_interlacing_mean
    [of ngp_externals 2 2 pair_part 2 "linear_binning 2 0 16" "''NGP''" 1 1 2
        "dft4 (ngp_scatter pair_part 2 rank0_grid ''NGP'')"
        "dft4 (ngp_scatter (interlacing_shifted 2 2 pair_part) 2 rank0_grid ''NGP'')"]
  from t h have p: "pos (interlacing_shifted 2 2 pair_part ! 1) ! 1 = 9 / 10 + 1 / 4 - 1"
    by (simp add: pair_part_def)
  from t n have m: "cdelta (interlace_mean (shift_of 2)
             (dft4 (ngp_scatter (interlacing_shifted 2 2 pair_part) 2 rank0_grid ''NGP''))
             (dft4 (ngp_scatter pair_part 2 rank0_grid ''NGP''))) 2 =
     (1 + exp (\<i> * of_real (2 * pi / 4)) * 1) / 2"
    by (simp only: k pair_grids) simp
  from t have s: "snd (compute_power_spectrum_interlacing ngp_externals 2 2 pair_part 2
          (linear_binning 2 0 16) ''NGP'') =
     (case bin_up_power_spectrum
             (interlace_mean (shift_of 2)
                (dft4 (ngp_scatter (interlacing_shifted 2 2 pair_part) 2 rank0_grid ''NGP''))
                (dft4 (ngp_scatter pair_part 2 rank0_grid ''NGP'')))
             (linear_binning 2 0 16) of
        Inl e \<Rightarrow> Inl e
      | Inr b \<Rightarrow> Inr (subtract_shotnoise 2 b))"
    by (simp only: e)
  from h n p m s pair_grids show ?thesis by simp
qed

subsection \<open>Loops over the bins\<close>

lemma fold_update_each_length [simp]:
  "length (fold (\<lambda>i xs. xs[i := f (xs ! i)]) [0..<n] xs) = length xs"
  by (induction n) simp_all



lemma subtract_shotnoise_frame [simp]:
  "count (subtract_shotnoise NumPartTotal b) = count b"
  "kbin (subtract_shotnoise NumPartTotal b) = kbin b"
  "nbin (subtract_shotnoise NumPartTotal b) = nbin b"
  by (simp_all add: subtract_shotnoise_def)

lemma binning_add_frame [simp]:
  "nbin (binning_add a b) = nbin a"
  "length (pofk (binning_add a b)) = min (length (pofk a)) (length (pofk b))"
  "length (count (binning_add a b)) = min (length (count a)) (length (count b))"
  "length (kbin (binning_add a b)) = min (length (kbin a)) (length (kbin b))"
  by (simp_all add: binning_add_def)



lemma divide_by_axes_fold:
  "fold (\<lambda>i b. b\<lparr>pofk := (pofk b)[i := pofk b ! i / c],
                  count := (count b)[i := count b ! i / c],
                  kbin := (kbin b)[i := kbin b ! i / c]\<rparr>) is b =
   b\<lparr>pofk := fold (\<lambda>i xs. xs[i := xs ! i / c]) is (pofk b),
     count := fold (\<lambda>i xs. xs[i := xs ! i / c]) is (count b),
     kbin := fold (\<lambda>i xs. xs[i := xs ! i / c]) is (kbin b)\<rparr>"
  by (induction "is" arbitrary: b) simp_all


lemma divide_by_axes_frame [simp]:
  "nbin (divide_by_axes N b) = nbin b"
  "length (pofk (divide_by_axes N b)) = length (pofk b)"
  using fold_update_each_length [of "\<lambda>x. x / real N" "nbin b" "pofk b"]
  by (simp_all add: divide_by_axes_def divide_by_axes_fold)

subsection \<open>The mean over the lines of sight\<close>



text \<open>
  When the loop over the axes succeeds and all binnings of \<open>Pell\<close> have the same number
  of bins, the per-axis results have the shape of \<open>Pell\<close>.
\<close>

lemma like_binning_refl [simp]: "like_binning a a"
  by (simp add: like_binning_def)
















subsection \<open>The multipoles of the two example particles\<close>




























subsection \<open>Direct summation at \<open>k = 0\<close>\<close>

lemma direct_sum_eq:
  "direct_sum N kvec part = (\<Sum>p\<leftarrow>part. exp (- \<i> * of_real (kx_of N kvec p)))"
proof -
  have "Complex (\<Sum>p\<leftarrow>part. Re (f p)) (\<Sum>p\<leftarrow>part. Im (f p)) = (\<Sum>p\<leftarrow>part. f p)"
    for f :: "particle \<Rightarrow> complex"
    by (induction part) (simp_all add: complex_eq_iff)
  then show ?thesis by (simp add: direct_sum_def mult.commute)
qed

lemma direct_summation_cell_frame [simp]:
  "wavevector (direct_summation_cell t part g x) = wavevector g"
  "ndim (direct_summation_cell t part g x) = ndim g"
  "cdelta (direct_summation_cell t part g x) =
     (cdelta g)(x := (if t = 0 \<and> x = 0 then direct_sum (ndim g) (wavevector g x) part - 1
                      else direct_sum (ndim g) (wavevector g x) part)
                     * of_real (1 / real (length part)))"
  by (simp_all add: direct_summation_cell_def Let_def)

lemma direct_summation_fold_frame [simp]:
  "wavevector (fold (\<lambda>x g. direct_summation_cell t part g x) xs g) = wavevector g"
  "ndim (fold (\<lambda>x g. direct_summation_cell t part g x) xs g) = ndim g"
  by (induction xs arbitrary: g; simp)+

lemma direct_summation_fold_cdelta:
  "cdelta (fold (\<lambda>x g. direct_summation_cell t part g x) xs g) i =
     (if i \<in> set xs
      then ((if t = 0 \<and> i = 0 then direct_sum (ndim g) (wavevector g i) part - 1
             else direct_sum (ndim g) (wavevector g i) part)
            * of_real (1 / real (length part)))
      else cdelta g i)"
proof (induction xs rule: rev_induct)
  case Nil
  then show ?case by simp
next
  case (snoc x xs)
  then show ?case by simp
qed

lemma direct_summation_grid_cdelta:
  assumes "ind < NmeshTotLocal (new_grid ext Ngrid 1 1)"
  shows "cdelta (direct_summation_grid t ext Ngrid part) ind =
     ((\<Sum>p\<leftarrow>part. exp (- \<i> * of_real (kx_of (ndim (new_grid ext Ngrid 1 1))
                                         (wavevector (new_grid ext Ngrid 1 1) ind) p)))
        - (if t = 0 \<and> ind = 0 then 1 else 0)) / of_nat (length part)"
  using assms
  by (simp add: direct_summation_grid_def direct_summation_fold_cdelta fourier_range_def
      direct_sum_eq divide_simps)

text \<open>
  C4. On task 0 the amplitude stored at the \<open>k = 0\<close> index is
  \<open>(\<Sum>i. exp(-i k.x\<^sub>i) - 1) / NumPart\<close>: the code takes 1 from the sum before it multiplies
  by \<open>1/NumPart\<close>. For two particles this is \<open>1/2\<close>, where \<open>(1/NumPart) \<Sum>i. exp(-i k.x\<^sub>i) - 1\<close>
  is 0.
\<close>

theorem C4_direct_summation_k0:
  "wavevector (new_grid example_externals 2 1 1) 0 = [0, 0] \<and>
   length example_part = 2 \<and>
   cdelta (direct_summation_grid 0 example_externals 2 example_part) 0 = 1 / 2 \<and>
   (1 / of_nat (length example_part)) *
     (\<Sum>p\<leftarrow>example_part. exp (- \<i> * of_real (kx_of 2 [0, 0] p))) - 1 = (0 :: complex)"
proof -
  have g: "new_grid example_externals 2 1 1 = rank0_grid"
    by (simp add: example_externals_def)
  have n: "0 < NmeshTotLocal (new_grid example_externals 2 1 1)"
    by (simp add: g NmeshTotLocal_def rank0_grid_def)
  have d: "ndim rank0_grid = 2" by (simp add: rank0_grid_def)
  have k: "kx_of 2 [0, 0] p = 0" for p
    by (simp add: kx_of_def upt_rec)
  have l: "length example_part = 2" by (simp add: example_part_def)
  have "cdelta (direct_summation_grid 0 example_externals 2 example_part) 0 = 1 / 2"
    using direct_summation_grid_cdelta [OF n, of 0 example_part]
    by (simp add: g d rank0_k0 k l sum_list_triv)
  moreover have "(1 / of_nat (length example_part)) *
     (\<Sum>p\<leftarrow>example_part. exp (- \<i> * of_real (kx_of 2 [0, 0] p))) - 1 = (0 :: complex)"
    by (simp add: k l sum_list_triv)
  ultimately show ?thesis using l g rank0_k0 by simp
qed

subsection \<open>The closing loop of \<^verbatim>\<open>compute_polyspectrum\<close>\<close>

text \<open>
  A tuple that passes the test of the closing loop has its digits, least significant
  first, in non-increasing order; sorted increasingly and read most significant first it
  is the index \<open>i\<close> itself. Every pass of the loop therefore copies a cell onto itself.
\<close>

lemma cell_index_rev_digits:
  "cell_index n (rev (map (\<lambda>ii. (i div n ^ ii) mod n) [0..<m])) = i mod n ^ m"
proof -
  have "foldr (\<lambda>d index. index * n + d) (map (\<lambda>ii. (i div n ^ ii) mod n) [0..<m]) 0 = i mod n ^ m"
  proof (induction m arbitrary: i)
    case 0
    then show ?case by simp
  next
    case (Suc m)
    have "map (\<lambda>ii. (i div n ^ ii) mod n) [0..<Suc m] =
          i mod n # map (\<lambda>ii. ((i div n) div n ^ ii) mod n) [0..<m]"
      by (simp only: map_upt_Suc) (simp add: div_mult2_eq)
    then have "foldr (\<lambda>d index. index * n + d) (map (\<lambda>ii. (i div n ^ ii) mod n) [0..<Suc m]) 0
               = ((i div n) mod n ^ m) * n + i mod n"
      using Suc [of "i div n"] by simp
    also have "\<dots> = i mod n ^ Suc m"
      by (simp add: mod_mult2_eq mult.commute)
    finally show ?case .
  qed
  then show ?thesis by (simp add: cell_index_def foldr_conv_fold)
qed

lemma poly_valid_sorted_rev:
  assumes "poly_valid ik"
  shows "sorted (rev ik)"
proof -
  have "ik ! Suc j \<le> ik ! j" if "Suc j < length ik" for j
  proof -
    have "Suc j \<in> set [1..<length ik]" using that by simp
    with assms have "\<not> ik ! Suc j > ik ! (Suc j - 1)"
      unfolding poly_valid_def list_all_iff by blast
    then show ?thesis by simp
  qed
  then show ?thesis by (simp add: sorted_rev_iff_nth_Suc)
qed

lemma poly_fill_index:
  assumes "poly_valid (poly_ik_fill order nbins i)" and "i < nbins ^ order"
  shows "cell_index nbins (sort (poly_ik_fill order nbins i)) = i"
proof -
  have "sort (poly_ik_fill order nbins i) = rev (poly_ik_fill order nbins i)"
    using assms(1) by (intro properties_for_sort poly_valid_sorted_rev) simp
  then show ?thesis
    using assms(2) by (simp add: poly_ik_fill_def cell_index_rev_digits)
qed

lemma poly_fill_step_id:
  assumes "i < nbins ^ order"
  shows "poly_fill_step order nbins i PN = PN"
proof (cases "poly_valid (poly_ik_fill order nbins i)")
  case True
  then have "cell_index nbins (sort (poly_ik_fill order nbins i)) = i"
    using assms by (rule poly_fill_index)
  then have "poly_fill_step order nbins i PN =
      (if fst PN ! i = 0 then (fst PN)[i := fst PN ! i] else fst PN,
       if snd PN ! i = 0 then (snd PN)[i := snd PN ! i] else snd PN)"
    using True unfolding poly_fill_step_def Let_def by presburger
  also have "\<dots> = PN"
    by (simp only: list_update_id if_cancel prod.collapse)
  finally show ?thesis .
next
  case False
  then show ?thesis by (simp add: poly_fill_step_def Let_def)
qed

lemma poly_fill_id: "poly_fill order nbins PN = PN"
proof -
  have "list_all (\<lambda>i. i < nbins ^ order) is \<Longrightarrow> fold (poly_fill_step order nbins) is PN = PN"
    for "is"
    by (induction "is") (simp_all add: poly_fill_step_id)
  then show ?thesis by (simp add: poly_fill_def list_all_iff)
qed

subsection \<open>The integration loop of \<^verbatim>\<open>compute_polyspectrum\<close>\<close>

lemma norm_factor_pos: "0 < Nmesh \<Longrightarrow> 0 < norm_factor Nmesh N"
  by (simp add: norm_factor_def)

lemma poly_integrate_step_length [simp]:
  "length (fst (poly_integrate_step Nmesh N order nbins k F_k N_k i PN)) = length (fst PN)"
  "length (snd (poly_integrate_step Nmesh N order nbins k F_k N_k i PN)) = length (snd PN)"
  by (simp_all add: poly_integrate_step_def Let_def)

lemma poly_integrate_step_other:
  "j \<noteq> i \<Longrightarrow> fst (poly_integrate_step Nmesh N order nbins k F_k N_k i PN) ! j = fst PN ! j"
  "j \<noteq> i \<Longrightarrow> snd (poly_integrate_step Nmesh N order nbins k F_k N_k i PN) ! j = snd PN ! j"
  by (simp_all add: poly_integrate_step_def Let_def)

lemma poly_integrate_step_self:
  assumes "i < length (fst PN)" "i < length (snd PN)" "fst PN ! i = 0" "snd PN ! i = 0"
  shows "fst (poly_integrate_step Nmesh N order nbins k F_k N_k i PN) ! i
           = poly_P_entry Nmesh N order nbins k F_k N_k i"
    and "snd (poly_integrate_step Nmesh N order nbins k F_k N_k i PN) ! i
           = poly_N_entry Nmesh N order nbins k N_k i"
  using assms
  by (simp_all add: poly_integrate_step_def poly_P_entry_def poly_N_entry_def Let_def)

lemma poly_integrate_fold:
  assumes "distinct is" and "length (fst PN) = n" and "length (snd PN) = n"
      and "list_all (\<lambda>i. i < n \<and> fst PN ! i = 0 \<and> snd PN ! i = 0) is"
  shows "length (fst (fold (poly_integrate_step Nmesh N order nbins k F_k N_k) is PN)) = n \<and>
         length (snd (fold (poly_integrate_step Nmesh N order nbins k F_k N_k) is PN)) = n \<and>
         fst (fold (poly_integrate_step Nmesh N order nbins k F_k N_k) is PN) ! j =
           (if j \<in> set is then poly_P_entry Nmesh N order nbins k F_k N_k j else fst PN ! j) \<and>
         snd (fold (poly_integrate_step Nmesh N order nbins k F_k N_k) is PN) ! j =
           (if j \<in> set is then poly_N_entry Nmesh N order nbins k N_k j else snd PN ! j)"
  using assms
proof (induction "is" arbitrary: j rule: rev_induct)
  case Nil
  then show ?case by simp
next
  case (snoc i "is")
  let ?Q = "fold (poly_integrate_step Nmesh N order nbins k F_k N_k) is PN"
  have ih: "length (fst ?Q) = n \<and> length (snd ?Q) = n \<and>
         fst ?Q ! j = (if j \<in> set is then poly_P_entry Nmesh N order nbins k F_k N_k j else fst PN ! j) \<and>
         snd ?Q ! j = (if j \<in> set is then poly_N_entry Nmesh N order nbins k N_k j else snd PN ! j)"
    for j
    using snoc.prems by (intro snoc.IH) simp_all
  have i: "i \<notin> set is" "i < n" "fst PN ! i = 0" "snd PN ! i = 0"
    using snoc.prems by simp_all
  have z: "fst ?Q ! i = 0" "snd ?Q ! i = 0" "i < length (fst ?Q)" "i < length (snd ?Q)"
    using ih [of i] i by simp_all
  show ?case
  proof (cases "j = i")
    case True
    then show ?thesis using poly_integrate_step_self [OF z(3,4,1,2)] ih [of i] by simp
  next
    case False
    then show ?thesis using ih [of j] by (simp add: poly_integrate_step_other)
  qed
qed

lemma poly_integrate_nth:
  assumes "i < nbins ^ order"
  shows "fst (poly_integrate Nmesh N order nbins k F_k N_k) ! i
           = poly_P_entry Nmesh N order nbins k F_k N_k i"
    and "snd (poly_integrate Nmesh N order nbins k F_k N_k) ! i
           = poly_N_entry Nmesh N order nbins k N_k i"
    and "length (fst (poly_integrate Nmesh N order nbins k F_k N_k)) = nbins ^ order"
    and "length (snd (poly_integrate Nmesh N order nbins k F_k N_k)) = nbins ^ order"
proof -
  have "list_all (\<lambda>i. i < nbins ^ order \<and>
                   fst (replicate (nbins ^ order) (0::real), replicate (nbins ^ order) (0::real)) ! i = 0 \<and>
                   snd (replicate (nbins ^ order) (0::real), replicate (nbins ^ order) (0::real)) ! i = 0)
          [0..<nbins ^ order]"
    by (simp add: list_all_iff)
  from poly_integrate_fold [OF _ _ _ this, where j = i and Nmesh = Nmesh and N = N and k = k
      and F_k = F_k and N_k = N_k] assms
  show "fst (poly_integrate Nmesh N order nbins k F_k N_k) ! i
           = poly_P_entry Nmesh N order nbins k F_k N_k i"
    and "snd (poly_integrate Nmesh N order nbins k F_k N_k) ! i
           = poly_N_entry Nmesh N order nbins k N_k i"
    and "length (fst (poly_integrate Nmesh N order nbins k F_k N_k)) = nbins ^ order"
    and "length (snd (poly_integrate Nmesh N order nbins k F_k N_k)) = nbins ^ order"
    by (simp_all add: poly_integrate_def)
qed

lemma compute_polyspectrum_result:
  assumes "0 < poly_n polyofk" and "0 < nmesh density_k"
  shows "\<exists>R. compute_polyspectrum order density_k F_k N_k polyofk = Inr R \<and>
             P123 R = fst (poly_integrate (nmesh density_k) (ndim density_k) order
                             (poly_n polyofk) (poly_k polyofk) F_k N_k) \<and>
             N123 R = snd (poly_integrate (nmesh density_k) (ndim density_k) order
                             (poly_n polyofk) (poly_k polyofk) F_k N_k)"
  using assms by (simp add: compute_polyspectrum_def Let_def poly_fill_id)

lemma poly_N_entry_nonneg: "0 \<le> poly_N_entry Nmesh N order nbins k N_k i"
  by (simp add: poly_N_entry_def Let_def)

subsection \<open>A point source on two shells\<close>

lemma two_shell_k_bin:
  "k_bin_of 2 [4, 12] 0 = 6" "k_bin_of 2 [4, 12] (Suc 0) = 10" "deltak_of [4, 12] = 8"
  by (simp_all add: k_bin_of_def khigh_of_def klow_of_def deltak_of_def)

lemma point_source_tuple_sums:
  "tuple_sum point_source_shells [Suc 0, 0, 0] = 8"
  "tuple_sum point_source_shells [0, 0, Suc 0] = 8"
  by (simp_all add: tuple_sum_def point_source_shells_def upt_rec)

lemma point_source_entries:
  "poly_P_entry 2 2 3 2 [4, 12] point_source_shells point_source_shells 4 = 1"
  "poly_P_entry 2 2 3 2 [4, 12] point_source_shells point_source_shells (Suc 0) = 0"
  "poly_N_entry 2 2 3 2 [4, 12] point_source_shells (Suc 0) = 0"
proof -
  have c: "0 < norm_factor 2 2" by (simp add: norm_factor_pos)
  have ik: "poly_ik 3 2 4 = [Suc 0, 0, 0]" "poly_ik 3 2 (Suc 0) = [0, 0, Suc 0]"
    by (simp_all add: poly_ik_def upt_rec)
  have v: "poly_valid [Suc 0, 0, 0]" "\<not> poly_valid [0, 0, Suc 0]"
    by (simp_all add: poly_valid_def upt_rec)
  have ks: "poly_ksum 2 [4, 12] [Suc 0, 0, 0] = 16"
    by (simp add: poly_ksum_def upt_rec two_shell_k_bin)
  show "poly_P_entry 2 2 3 2 [4, 12] point_source_shells point_source_shells 4 = 1"
    using c by (simp add: poly_P_entry_def Let_def ik v ks two_shell_k_bin point_source_tuple_sums)
  show "poly_P_entry 2 2 3 2 [4, 12] point_source_shells point_source_shells (Suc 0) = 0"
    by (simp add: poly_P_entry_def Let_def ik v)
  show "poly_N_entry 2 2 3 2 [4, 12] point_source_shells (Suc 0) = 0"
    by (simp add: poly_N_entry_def Let_def ik v)
qed

lemma point_source_polyspectrum:
  "\<exists>R. compute_polyspectrum 3 rank0_grid point_source_shells point_source_shells
          two_shell_binning = Inr R \<and>
       P123 R ! 4 = 1 \<and> P123 R ! Suc 0 = 0 \<and> N123 R ! Suc 0 = 0"
proof -
  have h: "0 < poly_n two_shell_binning" "0 < nmesh rank0_grid"
    by (simp_all add: two_shell_binning_def rank0_grid_def)
  have g: "nmesh rank0_grid = 2" "ndim rank0_grid = 2" "poly_n two_shell_binning = 2"
    "poly_k two_shell_binning = [4, 12]"
    by (simp_all add: two_shell_binning_def rank0_grid_def)
  have i: "(4::nat) < 2 ^ 3" "Suc 0 < 2 ^ 3" by simp_all
  from compute_polyspectrum_result [OF h, of 3 point_source_shells point_source_shells]
  obtain R where R: "compute_polyspectrum 3 rank0_grid point_source_shells point_source_shells
          two_shell_binning = Inr R"
    "P123 R = fst (poly_integrate 2 2 3 2 [4, 12] point_source_shells point_source_shells)"
    "N123 R = snd (poly_integrate 2 2 3 2 [4, 12] point_source_shells point_source_shells)"
    unfolding g by blast
  show ?thesis
    using R poly_integrate_nth(1,2) [OF i(1)] poly_integrate_nth(1,2) [OF i(2)]
    by (simp add: point_source_entries)
qed

lemma point_source_triple_sums:
  "triple_sum point_source_shells [0, 0, 0] = 0"
  "triple_sum point_source_shells [0, 0, Suc 0] = 8"
  "triple_sum point_source_shells [0, Suc 0, Suc 0] = 0"
  "triple_sum point_source_shells [Suc 0, Suc 0, Suc 0] = 0"
  by (simp_all add: triple_sum_def point_source_shells_def upt_rec)

lemma point_source_bispectrum:
  "\<exists>R x. compute_bispectrum rank0_grid point_source_shells point_source_shells
            two_shell_binning = Inr R \<and>
         x \<noteq> 0 \<and> P123 R = [0, x, x, 0, x, 0, 0, 0]"
proof -
  define p where "p = pofk_bin_of rank0_grid 2 [4, 12]"
  define norm where "norm = p 0 * p 0 + p 0 * p (Suc 0) + p (Suc 0) * p 0"
  define x :: real where "x = (if norm > 0 then 1 / norm else 1)"
  have x: "x \<noteq> 0" by (simp add: x_def)
  have c: "0 < norm_factor 2 2" by (simp add: norm_factor_pos)
  have g: "nmesh rank0_grid = 2" "ndim rank0_grid = 2" "poly_n two_shell_binning = 2"
    "poly_k two_shell_binning = [4, 12]"
    by (simp_all add: two_shell_binning_def rank0_grid_def)
  have u: "[0..<2 ^ 3] = [0, Suc 0, 2, 3, 4, 5, 6, 7]" by (simp add: upt_rec)
  have r: "replicate (2 ^ 3) (0::real) = [0, 0, 0, 0, 0, 0, 0, 0]"
    by (simp add: eval_nat_numeral)
  have ik: "bis_ik 2 0 = [0, 0, 0]" "bis_ik 2 (Suc 0) = [Suc 0, 0, 0]" "bis_ik 2 2 = [0, Suc 0, 0]"
    "bis_ik 2 3 = [Suc 0, Suc 0, 0]" "bis_ik 2 4 = [0, 0, Suc 0]" "bis_ik 2 5 = [Suc 0, 0, Suc 0]"
    "bis_ik 2 6 = [0, Suc 0, Suc 0]" "bis_ik 2 7 = [Suc 0, Suc 0, Suc 0]"
    by (simp_all add: bis_ik_def upt_rec)
  have skip: "bis_integrate_step rank0_grid 2 [4, 12] point_source_shells point_source_shells i BN = BN"
    if "i = Suc 0 \<or> i = 2 \<or> i = 3 \<or> i = 5" for i BN
    using that by (elim disjE) (simp_all add: bis_integrate_step_def Let_def ik)
  have zero: "bis_integrate_step rank0_grid 2 [4, 12] point_source_shells point_source_shells i BN
      = ((fst BN)[i := 0], (snd BN)[i := 0])"
    if "i = 0 \<or> i = 6 \<or> i = 7" for i BN
    using that
    by (elim disjE)
      (simp_all add: bis_integrate_step_def Let_def ik two_shell_k_bin point_source_triple_sums)
  have four: "bis_integrate_step rank0_grid 2 [4, 12] point_source_shells point_source_shells 4 BN
      = ((fst BN)[4 := x], (snd BN)[4 := 8 * norm_factor 2 2])" for BN
    using c
    by (simp add: bis_integrate_step_def Let_def ik two_shell_k_bin point_source_triple_sums g
        x_def norm_def p_def)
  have main: "fold (bis_integrate_step rank0_grid 2 [4, 12] point_source_shells point_source_shells)
                [0..<2 ^ 3] (replicate (2 ^ 3) 0, replicate (2 ^ 3) 0)
              = ([0, 0, 0, 0, x, 0, 0, 0], [0, 0, 0, 0, 8 * norm_factor 2 2, 0, 0, 0])"
    unfolding u r by (simp add: skip zero four)
  have main8: "fold (bis_integrate_step rank0_grid 2 [4, 12] point_source_shells point_source_shells)
                [0..<8] (replicate 8 0, replicate 8 0)
              = ([0, 0, 0, 0, x, 0, 0, 0], [0, 0, 0, 0, 8 * norm_factor 2 2, 0, 0, 0])"
    using main by simp
  have t: "bis_triples 2 = [(0, 0, 0), (0, 0, Suc 0), (0, Suc 0, 0), (0, Suc 0, Suc 0),
                           (Suc 0, 0, 0), (Suc 0, 0, Suc 0), (Suc 0, Suc 0, 0), (Suc 0, Suc 0, Suc 0)]"
    by (simp add: bis_triples_def upt_rec)
  have fill: "fold (bis_fill_step 2) (bis_triples 2) [0, 0, 0, 0, x, 0, 0, 0]
                = [0, x, x, 0, x, 0, 0, 0]"
    unfolding t using x by (simp add: bis_fill_step_def Let_def)
  have "compute_bispectrum rank0_grid point_source_shells point_source_shells two_shell_binning
        = Inr (two_shell_binning\<lparr>P123 := [0, x, x, 0, x, 0, 0, 0],
                 N123 := [0, 0, 0, 0, 8 * norm_factor 2 2, 0, 0, 0],
                 poly_kbin := map (k_bin_of 2 [4, 12]) [0..<2],
                 poly_pofk := map (pofk_bin_of rank0_grid 2 [4, 12]) [0..<2]\<rparr>)"
    by (simp add: compute_bispectrum_def Let_def g main8 fill)
  then show ?thesis using x by auto
qed

text \<open>
  C2. For \<open>ORDER = 3\<close>, two shells and the point-source field, \<^verbatim>\<open>compute_polyspectrum\<close>
  stores 1 at the tuple \<open>(1, 0, 0)\<close> and leaves 0 at its permutation \<open>(0, 0, 1)\<close>: the
  closing loop has copied nothing, and the stored tensor is not permutation-symmetric.
  (\<^verbatim>\<open>compute_bispectrum\<close> on the same input fills all three arrangements, see
  \<open>point_source_bispectrum\<close>.)
\<close>

theorem C2_polyspectrum_fill_leaves_zero:
  "cell_index 2 [1, 0, 0] = 4 \<and> cell_index 2 [0, 0, 1] = 1 \<and>
   (\<exists>R. compute_polyspectrum 3 rank0_grid point_source_shells point_source_shells
           two_shell_binning = Inr R \<and>
        P123 R ! cell_index 2 [1, 0, 0] = 1 \<and> P123 R ! cell_index 2 [0, 0, 1] = 0)"
proof -
  have c: "cell_index 2 [1, 0, 0] = 4" "cell_index 2 [0, 0, 1] = Suc 0"
    by (simp_all add: cell_index_def)
  show ?thesis using point_source_polyspectrum unfolding c by auto
qed

text \<open>
  C3. The tuple \<open>(0, 0, 1)\<close> is in increasing order and passes the closable-polygon test,
  its normalised count \<open>N\<close> is positive and \<open>F/N = 1\<close>; \<^verbatim>\<open>compute_polyspectrum\<close> leaves
  both its \<open>P123\<close> and its \<open>N123\<close> entry at 0, since the integration loop goes on only for
  tuples in non-increasing order.
\<close>

theorem C3_ascending_tuple_not_set:
  "sorted [0, 0, 1 :: nat] \<and>
   \<not> k_bin_of 2 [4, 12] 0 + k_bin_of 2 [4, 12] 0 < k_bin_of 2 [4, 12] 1 - 3 * deltak_of [4, 12] / 2 \<and>
   0 < tuple_sum point_source_shells [0, 0, 1] * norm_factor 2 2 \<and>
   tuple_sum point_source_shells [0, 0, 1] * norm_factor 2 2 /
     (tuple_sum point_source_shells [0, 0, 1] * norm_factor 2 2) = 1 \<and>
   (\<exists>R. compute_polyspectrum 3 rank0_grid point_source_shells point_source_shells
           two_shell_binning = Inr R \<and>
        P123 R ! cell_index 2 [0, 0, 1] = 0 \<and> N123 R ! cell_index 2 [0, 0, 1] = 0)"
proof -
  have c: "cell_index 2 [0, 0, 1] = Suc 0"
    by (simp add: cell_index_def)
  have n: "0 < norm_factor 2 2" by (simp add: norm_factor_pos)
  have k: "\<not> k_bin_of 2 [4, 12] 0 + k_bin_of 2 [4, 12] 0
             < k_bin_of 2 [4, 12] 1 - 3 * deltak_of [4, 12] / 2"
    using two_shell_k_bin by simp
  have "0 < tuple_sum point_source_shells [0, 0, 1] * norm_factor 2 2"
    using n by (simp add: point_source_tuple_sums)
  moreover have "tuple_sum point_source_shells [0, 0, 1] * norm_factor 2 2 /
     (tuple_sum point_source_shells [0, 0, 1] * norm_factor 2 2) = 1"
    using n by (simp add: point_source_tuple_sums)
  moreover have "\<exists>R. compute_polyspectrum 3 rank0_grid point_source_shells point_source_shells
           two_shell_binning = Inr R \<and>
        P123 R ! cell_index 2 [0, 0, 1] = 0 \<and> N123 R ! cell_index 2 [0, 0, 1] = 0"
    using point_source_polyspectrum unfolding c by auto
  ultimately show ?thesis using k by simp
qed

end
